theory Spec2Isabelle
  imports Complex_Main
begin

section \<open>3djuggler: the job orchestration loop of \<open>main.go\<close>\<close>

text \<open>
  The source file holds two revisions of \<open>main.go\<close>. Revision 1 contains the polling
  loop and the methods of \<open>InternEnpoint\<close>; revision 2 contains the polling loop only,
  rewritten on top of \<open>daemon.UpdateStatus\<close> and the constants of package \<open>juggler\<close>.

  Conventions of the embedding:
  \<^item> a \<open>time.Time\<close> is an integer count of nanoseconds, so \<open>t.Add(d)\<close> is \<open>t + d\<close> and
    \<open>t.After(u)\<close> is \<open>u < t\<close>;
  \<^item> a \<open>float64\<close> progress value is the real number it denotes; the loop only copies it,
    and \<open>fmt.Sprintf\<close> with the verb \<open>%0.1f\<close> is a parameter \<open>fmt_f1\<close>;
  \<^item> a Go \<open>error\<close> result is an \<open>error option\<close> (\<open>None\<close> for \<open>nil\<close>);
  \<^item> a nil pointer dereference is the outcome \<open>Panicked\<close> of a method and \<open>None\<close> of a tick;
  \<^item> what the outside world answers during one tick (HTTP responses, \<open>os.Stat\<close>, clock
    readings, the button, the feeder) is a record of inputs; what the tick does to the
    outside world is the list of effects it returns, in program order;
  \<^item> log output is not modelled: an error that the source only logs is dropped;
  \<^item> \<open>http.NewRequest\<close> is taken to succeed (the configured URI parses), so that
    \<open>client.Do\<close> is the first call of a method that can fail; the feeder handle is not
    modelled, in state "Printing" it is the one the "Sending to printer" tick created;
    the timer and the HTTP server that \<open>main\<close> starts are outside the tick.
\<close>

subsection \<open>Constants\<close>

type_synonym time = int

definition buttonfile :: string where
  "buttonfile = ''/tmp/buttonpress''"

definition gizmostatusfile :: string where
  "gizmostatusfile = ''/tmp/gizmostatusfile''"

definition jobfile :: string where
  "jobfile = ''/tmp/job''"

definition waitingForButtonInterval :: int where
  "waitingForButtonInterval = 10 * (60 * 1000000000)"

definition pollingInterval :: int where
  "pollingInterval = 15 * 1000000000"

subsection \<open>Data\<close>

text \<open>The status values of \<open>gcodefeeder\<close> that the source and the spec name.\<close>

datatype FeederStatus = Idle | Printing | MMUBusy | FSensorBusy | Finished | Error

record Job =
  Id :: int
  Filename :: string
  FileContent :: string
  Owner :: string
  Status :: string
  Progress :: real
  feederStatus :: FeederStatus

text \<open>\<open>InternEnpoint.job\<close> is a pointer: \<open>None\<close> is \<open>nil\<close>.\<close>

record 'j InternEnpoint =
  Api_app :: string
  Api_key :: string
  Api_uri :: string
  job :: "'j option"
  PrinterName :: string
  OfficeName :: string

subsection \<open>HTTP requests and responses\<close>

text \<open>
  A request is the URL it is posted to and the form values in the order the source sets
  them. The body of a response is classified by what \<open>ioutil.ReadAll\<close> and
  \<open>json.Unmarshal\<close> make of it: unreadable, undecodable, or decoded into the fields
  \<open>Success\<close>, \<open>Content\<close> (a pointer, \<open>None\<close> when the JSON has no content) and \<open>Error\<close>.
\<close>

datatype request = Post string "(string \<times> string) list"

datatype 'j body = Unreadable string | Undecodable string | Decoded bool "'j option" string

datatype 'j http_result = DoError string | Response nat "'j body"

datatype error =
  TransportError string
  | ReadError string
  | UnmarshalError string
  | Unsuccessful int string
  | NothingToPrint

datatype outcome = Returned "error option" | Panicked

text \<open>\<open>fmt.Sprintf("%d", n)\<close> and \<open>fmt.Sprint(n)\<close> on an \<open>int\<close>: decimal digits.\<close>

fun digits :: "nat \<Rightarrow> string" where
  "digits n =
     (if n < 10 then [''0123456789'' ! n]
      else digits (n div 10) @ [''0123456789'' ! (n mod 10)])"

declare digits.simps [simp del]

definition Sprint_d :: "int \<Rightarrow> string" where
  "Sprint_d n = (if n < 0 then CHR ''-'' # digits (nat (- n)) else digits (nat n))"

text \<open>The value a request carries for a form key, as \<open>url.Values\<close> holds it.\<close>

fun form_value :: "string \<Rightarrow> request \<Rightarrow> string option" where
  "form_value k (Post url form) = map_of form k"

subsection \<open>The methods of \<open>InternEnpoint\<close> (revision 1)\<close>

definition statusWithProgress :: "(real \<Rightarrow> string) \<Rightarrow> 'a Job_scheme \<Rightarrow> string" where
  "statusWithProgress fmt_f1 j =
     (if Status j = ''Printing'' then
        (case feederStatus j of
           Printing \<Rightarrow> ''Printing... ('' @ fmt_f1 (Progress j) @ ''%)''
         | MMUBusy \<Rightarrow> ''Printing paused: MMU paused printing''
         | FSensorBusy \<Rightarrow> ''Printing paused: Filament sensor paused printing''
         | _ \<Rightarrow> Status j)
      else Status j)"

definition reportJobStatusChange_request ::
  "(real \<Rightarrow> string) \<Rightarrow> 'j InternEnpoint \<Rightarrow> 'a Job_scheme \<Rightarrow> request" where
  "reportJobStatusChange_request fmt_f1 ie j =
     Post (Api_uri ie @ ''/job/'')
       [(''app'', Api_app ie), (''token'', Api_key ie), (''action'', ''update''),
        (''status'', statusWithProgress fmt_f1 j), (''id'', Sprint_d (Id j)),
        (''printer_name'', PrinterName ie), (''office_name'', OfficeName ie)]"

definition reportJobStatusChange ::
  "(real \<Rightarrow> string) \<Rightarrow> 'j InternEnpoint \<Rightarrow> 'a Job_scheme \<Rightarrow> (request \<Rightarrow> 'j http_result) \<Rightarrow> error option" where
  "reportJobStatusChange fmt_f1 ie j client_Do =
     (case client_Do (reportJobStatusChange_request fmt_f1 ie j) of
        DoError e \<Rightarrow> Some (TransportError e)
      | Response code b \<Rightarrow> None)"

definition reschedule_request :: "'j InternEnpoint \<Rightarrow> request" where
  "reschedule_request ie =
     Post (Api_uri ie @ ''/printer/'')
       [(''app'', Api_app ie), (''token'', Api_key ie), (''action'', ''reschedule''),
        (''printer_name'', PrinterName ie), (''office_name'', OfficeName ie)]"

definition reschedule :: "'j InternEnpoint \<Rightarrow> (request \<Rightarrow> 'j http_result) \<Rightarrow> error option" where
  "reschedule ie client_Do =
     (case client_Do (reschedule_request ie) of
        DoError e \<Rightarrow> Some (TransportError e)
      | Response code b \<Rightarrow> None)"

definition deleteJob_request :: "'j InternEnpoint \<Rightarrow> 'a Job_scheme \<Rightarrow> request" where
  "deleteJob_request ie j =
     Post (Api_uri ie @ ''/job/'')
       [(''app'', Api_app ie), (''token'', Api_key ie), (''action'', ''delete''),
        (''id'', Sprint_d (Id j)),
        (''printer_name'', PrinterName ie), (''office_name'', OfficeName ie)]"

definition deleteJob ::
  "'j InternEnpoint \<Rightarrow> 'a Job_scheme \<Rightarrow> (request \<Rightarrow> 'j http_result) \<Rightarrow> error option" where
  "deleteJob ie j client_Do =
     (case client_Do (deleteJob_request ie j) of
        DoError e \<Rightarrow> Some (TransportError e)
      | Response code b \<Rightarrow> None)"

definition getJob_request :: "'j InternEnpoint \<Rightarrow> int \<Rightarrow> request" where
  "getJob_request ie jid =
     Post (Api_uri ie @ ''/job/'')
       ([(''app'', Api_app ie), (''token'', Api_key ie), (''action'', ''get''),
         (''printer_name'', PrinterName ie), (''office_name'', OfficeName ie)]
        @ (if jid \<noteq> 0 then [(''id'', Sprint_d jid)] else []))"

text \<open>
  \<open>getJob\<close> returns its result together with the client, whose \<open>job\<close> pointer it may have
  overwritten. After \<open>ie.job = result.Content\<close> the read \<open>ie.job.Id\<close> dereferences the
  pointer; when the decoded response has no content that read panics.
\<close>

definition getJob ::
  "'a Job_scheme InternEnpoint \<Rightarrow> int \<Rightarrow> (request \<Rightarrow> 'a Job_scheme http_result)
     \<Rightarrow> outcome \<times> 'a Job_scheme InternEnpoint" where
  "getJob ie jid client_Do =
     (case client_Do (getJob_request ie jid) of
        DoError e \<Rightarrow> (Returned (Some (TransportError e)), ie)
      | Response code b \<Rightarrow>
          (case b of
             Unreadable e \<Rightarrow> (Returned (Some (ReadError e)), ie)
           | Undecodable e \<Rightarrow> (Returned (Some (UnmarshalError e)), ie)
           | Decoded success content err \<Rightarrow>
               if \<not> success then (Returned (Some (Unsuccessful jid err)), ie)
               else
                 (let ie' = ie\<lparr>job := content\<rparr> in
                  case job ie' of
                    None \<Rightarrow> (Panicked, ie')
                  | Some j \<Rightarrow>
                      if Id j = 0 then (Returned (Some NothingToPrint), ie')
                      else (Returned None, ie'))))"

definition nextJob ::
  "'a Job_scheme InternEnpoint \<Rightarrow> (request \<Rightarrow> 'a Job_scheme http_result)
     \<Rightarrow> outcome \<times> 'a Job_scheme InternEnpoint" where
  "nextJob ie client_Do = getJob ie 0 client_Do"

definition reportStat_request :: "'j InternEnpoint \<Rightarrow> request" where
  "reportStat_request ie =
     Post (Api_uri ie @ ''/printer/'')
       [(''app'', Api_app ie), (''token'', Api_key ie), (''action'', ''heartbeat''),
        (''printer_name'', PrinterName ie), (''office_name'', OfficeName ie)]"

definition reportStat :: "'j InternEnpoint \<Rightarrow> (request \<Rightarrow> 'j http_result) \<Rightarrow> error option" where
  "reportStat ie client_Do =
     (case client_Do (reportStat_request ie) of
        DoError e \<Rightarrow> Some (TransportError e)
      | Response code b \<Rightarrow> None)"

subsection \<open>The outside world during one tick\<close>

datatype stat_result = StatOk time | NotExist | StatError

text \<open>
  The inputs of one tick. \<open>client_Do\<close> answers each request sent in the tick (the
  requests of one tick differ from each other); \<open>os_Stat\<close>
  is the result of \<open>os.Stat(daemon.gizmostatusfile)\<close> (\<open>StatOk\<close> carries \<open>ModTime()\<close>,
  \<open>NotExist\<close> is an error for which \<open>os.IsNotExist\<close> holds); each \<open>time.Now()\<close> whose
  value the loop stores or tests is a reading of its own; \<open>checkButtonPressed\<close> is the
  result of the daemon's method of that name; the remaining fields are the results of
  \<open>ioutil.WriteFile\<close>, \<open>gcodefeeder.NewFeeder\<close>, \<open>feeder.Progress()\<close> and \<open>feeder.Status()\<close>.
\<close>

record 'j world =
  client_Do :: "request \<Rightarrow> 'j http_result"
  os_Stat :: stat_result
  now_Fetched :: time
  now_Scheduled :: time
  now_ModTime_check :: time
  now_Scheduled_check :: time
  checkButtonPressed :: bool
  WriteFile_fails :: bool
  NewFeeder_fails :: bool
  feeder_Progress :: real
  feeder_Status :: FeederStatus

datatype effect =
  ClientDo request
  | Os_Remove string
  | Os_Create string
  | Os_Chmod string
  | WriteFile string string
  | NewFeeder string string
  | Go_Feed
  | Feeder_Cancel
  | CheckButtonPressed

text \<open>The state the loop carries from tick to tick: \<open>daemon.job\<close> and the client \<open>ie\<close>.\<close>

record 'j daemon =
  daemon_job :: 'j
  daemon_ie :: "'j InternEnpoint"

subsection \<open>The polling loop, revision 1\<close>

text \<open>
  One definition for each \<open>case\<close> of the \<open>switch\<close> on \<open>daemon.job.Status\<close>. A handler
  returns \<open>None\<close> when the tick panics, and otherwise the new state and its effects.
\<close>

definition waiting_for_a_button1 ::
  "(real \<Rightarrow> string) \<Rightarrow> Job world \<Rightarrow> Job daemon \<Rightarrow> (Job daemon \<times> effect list) option" where
  "waiting_for_a_button1 fmt_f1 w s =
     (case getJob (daemon_ie s) (Id (daemon_job s)) (client_Do w) of
        (Panicked, i) \<Rightarrow> None
      | (Returned err, i) \<Rightarrow>
          (let d = daemon_job s;
               e0 = [ClientDo (getJob_request (daemon_ie s) (Id d))];
               rest =
                 (case os_Stat w of
                    StatOk modTime \<Rightarrow>
                      if now_ModTime_check w < modTime + waitingForButtonInterval then
                        (if checkButtonPressed w then
                           (let d1 = d\<lparr>Status := ''Sending to printer''\<rparr>;
                                err = reportJobStatusChange fmt_f1 i d1 (client_Do w)
                            in Some (\<lparr>daemon_job = d1, daemon_ie = i\<rparr>,
                                 e0 @ [CheckButtonPressed,
                                       ClientDo (reportJobStatusChange_request fmt_f1 i d1)]))
                         else Some (\<lparr>daemon_job = d, daemon_ie = i\<rparr>, e0 @ [CheckButtonPressed]))
                      else
                        (let d1 = d\<lparr>Status := ''Button timeout''\<rparr>;
                             err = reportJobStatusChange fmt_f1 i d1 (client_Do w);
                             d2 = d1\<lparr>Status := ''Waiting for job'', Id := 0\<rparr>
                         in Some (\<lparr>daemon_job = d2, daemon_ie = i\<rparr>,
                              e0 @ [ClientDo (reportJobStatusChange_request fmt_f1 i d1),
                                    Os_Remove gizmostatusfile]))
                  | _ \<Rightarrow>
                      (let d1 = d\<lparr>Status := ''Cancelling''\<rparr>;
                           err = reportJobStatusChange fmt_f1 i d1 (client_Do w)
                       in Some (\<lparr>daemon_job = d1, daemon_ie = i\<rparr>,
                            e0 @ [ClientDo (reportJobStatusChange_request fmt_f1 i d1)])))
           in if err = None then
                (case job i of
                   None \<Rightarrow> None
                 | Some r \<Rightarrow>
                     if Status r = ''Cancelling'' then
                       Some (\<lparr>daemon_job = d\<lparr>Status := ''Cancelling''\<rparr>, daemon_ie = i\<rparr>, e0)
                     else rest)
              else rest))"

definition waiting_for_job1 ::
  "(real \<Rightarrow> string) \<Rightarrow> Job world \<Rightarrow> Job daemon \<Rightarrow> (Job daemon \<times> effect list) option" where
  "waiting_for_job1 fmt_f1 w s =
     (case nextJob (daemon_ie s) (client_Do w) of
        (Panicked, i) \<Rightarrow> None
      | (Returned (Some e), i) \<Rightarrow>
          Some (s\<lparr>daemon_ie := i\<rparr>, [ClientDo (getJob_request (daemon_ie s) 0)])
      | (Returned None, i) \<Rightarrow>
          (case job i of
             None \<Rightarrow> None
           | Some r \<Rightarrow>
               (let d = (daemon_job s)
                      \<lparr>Id := Id r, Filename := Filename r, FileContent := FileContent r,
                       Status := ''Waiting for a button'', Progress := Progress r,
                       Owner := Owner r\<rparr>;
                    err = reportJobStatusChange fmt_f1 i d (client_Do w);
                    e1 = [ClientDo (getJob_request (daemon_ie s) 0),
                          ClientDo (reportJobStatusChange_request fmt_f1 i d),
                          Os_Remove buttonfile, Os_Remove gizmostatusfile,
                          Os_Create gizmostatusfile, Os_Chmod gizmostatusfile]
                in case waiting_for_a_button1 fmt_f1 w \<lparr>daemon_job = d, daemon_ie = i\<rparr> of
                     None \<Rightarrow> None
                   | Some (s', e2) \<Rightarrow> Some (s', e1 @ e2))))"

definition sending_to_printer1 ::
  "(real \<Rightarrow> string) \<Rightarrow> Job world \<Rightarrow> Job daemon \<Rightarrow> Job daemon \<times> effect list" where
  "sending_to_printer1 fmt_f1 w s =
     (let d = daemon_job s; i = daemon_ie s in
      if WriteFile_fails w then (s, [WriteFile jobfile (FileContent d)])
      else if NewFeeder_fails w then
        (s, [WriteFile jobfile (FileContent d), NewFeeder ''/dev/ttyACM0'' jobfile])
      else
        (let d1 = d\<lparr>Status := ''Printing''\<rparr>;
             err = reportJobStatusChange fmt_f1 i d1 (client_Do w)
         in (s\<lparr>daemon_job := d1\<rparr>,
             [WriteFile jobfile (FileContent d), NewFeeder ''/dev/ttyACM0'' jobfile,
              ClientDo (reportJobStatusChange_request fmt_f1 i d1), Go_Feed])))"

definition printing1 ::
  "(real \<Rightarrow> string) \<Rightarrow> Job world \<Rightarrow> Job daemon \<Rightarrow> (Job daemon \<times> effect list) option" where
  "printing1 fmt_f1 w s =
     (let d = daemon_job s in
      if os_Stat w = NotExist then
        (let d1 = d\<lparr>Status := ''Cancelling''\<rparr>;
             err = reportJobStatusChange fmt_f1 (daemon_ie s) d1 (client_Do w)
         in Some (s\<lparr>daemon_job := d1\<rparr>,
              [Feeder_Cancel, ClientDo (reportJobStatusChange_request fmt_f1 (daemon_ie s) d1)]))
      else
        (case getJob (daemon_ie s) (Id d) (client_Do w) of
           (Panicked, i) \<Rightarrow> None
         | (Returned err, i) \<Rightarrow>
             (let e0 = [ClientDo (getJob_request (daemon_ie s) (Id d))];
                  rest =
                    (let d1 = d\<lparr>Progress := feeder_Progress w\<rparr>;
                         d2 = d1\<lparr>feederStatus := feeder_Status w\<rparr>;
                         d3 = (case feederStatus d2 of
                                 Finished \<Rightarrow> d2\<lparr>Status := ''Finished''\<rparr>
                               | Error \<Rightarrow> d2\<lparr>Status := ''Cancelling''\<rparr>
                               | _ \<Rightarrow> d2);
                         err = reportJobStatusChange fmt_f1 i d3 (client_Do w)
                     in Some (\<lparr>daemon_job = d3, daemon_ie = i\<rparr>,
                          e0 @ [ClientDo (reportJobStatusChange_request fmt_f1 i d3)]))
              in if err = None then
                   (case job i of
                      None \<Rightarrow> None
                    | Some r \<Rightarrow>
                        if Status r = ''Cancelling'' then
                          (let d1 = d\<lparr>Status := ''Cancelling''\<rparr>;
                               err = reportJobStatusChange fmt_f1 i d1 (client_Do w)
                           in Some (\<lparr>daemon_job = d1, daemon_ie = i\<rparr>,
                                e0 @ [ClientDo (reportJobStatusChange_request fmt_f1 i d1),
                                      Feeder_Cancel]))
                        else rest)
                 else rest)))"

definition cancelling_finished1 :: "Job world \<Rightarrow> Job daemon \<Rightarrow> Job daemon \<times> effect list" where
  "cancelling_finished1 w s =
     (let d = daemon_job s;
          err = deleteJob (daemon_ie s) d (client_Do w);
          d1 = d\<lparr>Id := 0\<rparr>;
          d2 = d1\<lparr>Status := ''Waiting for job''\<rparr>
      in (s\<lparr>daemon_job := d2\<rparr>,
          [ClientDo (deleteJob_request (daemon_ie s) d), Os_Remove gizmostatusfile]))"

text \<open>
  The body of the \<open>for\<close> loop after the timer has fired: the heartbeat, then the
  \<open>switch\<close>. \<open>Waiting for job\<close> falls through into \<open>Waiting for a button\<close> inside
  \<open>waiting_for_job1\<close>; an unknown status is only logged.
\<close>

definition tick1 ::
  "(real \<Rightarrow> string) \<Rightarrow> Job world \<Rightarrow> Job daemon \<Rightarrow> (Job daemon \<times> effect list) option" where
  "tick1 fmt_f1 w s =
     (let err = reportStat (daemon_ie s) (client_Do w);
          e0 = [ClientDo (reportStat_request (daemon_ie s))];
          st = Status (daemon_job s);
          handled =
            (if st = ''Waiting for job'' then waiting_for_job1 fmt_f1 w s
             else if st = ''Waiting for a button'' then waiting_for_a_button1 fmt_f1 w s
             else if st = ''Sending to printer'' then Some (sending_to_printer1 fmt_f1 w s)
             else if st = ''Printing'' then printing1 fmt_f1 w s
             else if st = ''Cancelling'' \<or> st = ''Finished'' then Some (cancelling_finished1 w s)
             else Some (s, []))
      in case handled of
           None \<Rightarrow> None
         | Some (s', e) \<Rightarrow> Some (s', e0 @ e))"

subsection \<open>The polling loop, revision 2\<close>

text \<open>
  \<open>juggler.Job\<close> has the fields of revision 1's \<open>Job\<close> (the feeder status is exported
  there as \<open>FeederStatus\<close>) and the two timestamps that revision 2 assigns.
\<close>

record juggler_Job = Job +
  Fetched :: time
  Scheduled :: time

text \<open>
  Modelled from the spec: the status constants of package \<open>juggler\<close>, which revision 2
  uses and \<open>src/\<close> does not contain. The spec describes revision 2 as revision 1 with
  the status constants extracted, so each constant stands for the literal of revision 1
  that it replaces.
\<close>

definition StatusWaitingJob :: string where
  "StatusWaitingJob = ''Waiting for job''"

definition StatusWaitingButton :: string where
  "StatusWaitingButton = ''Waiting for a button''"

definition StatusSending :: string where
  "StatusSending = ''Sending to printer''"

definition StatusPrinting :: string where
  "StatusPrinting = ''Printing''"

definition StatusCancelling :: string where
  "StatusCancelling = ''Cancelling''"

definition StatusFinished :: string where
  "StatusFinished = ''Finished''"

definition StatusButtonTimeout :: string where
  "StatusButtonTimeout = ''Button timeout''"

text \<open>
  Modelled from the spec: \<open>daemon.UpdateStatus\<close>, which revision 2 calls and \<open>src/\<close> does
  not contain. Wherever revision 2 calls it the spec writes "set \<open>Status\<close>, then
  \<open>reportStatusChange\<close>": the status is assigned and the job is reported with
  \<open>reportJobStatusChange\<close>, whose error is only logged.
\<close>

definition UpdateStatus ::
  "(real \<Rightarrow> string) \<Rightarrow> juggler_Job world \<Rightarrow> juggler_Job daemon \<Rightarrow> string
     \<Rightarrow> juggler_Job daemon \<times> effect list" where
  "UpdateStatus fmt_f1 w s status =
     (let d = (daemon_job s)\<lparr>Status := status\<rparr>;
          err = reportJobStatusChange fmt_f1 (daemon_ie s) d (client_Do w)
      in (s\<lparr>daemon_job := d\<rparr>, [ClientDo (reportJobStatusChange_request fmt_f1 (daemon_ie s) d)]))"

definition waiting_button2 ::
  "(real \<Rightarrow> string) \<Rightarrow> juggler_Job world \<Rightarrow> juggler_Job daemon
     \<Rightarrow> (juggler_Job daemon \<times> effect list) option" where
  "waiting_button2 fmt_f1 w s =
     (case getJob (daemon_ie s) (Id (daemon_job s)) (client_Do w) of
        (Panicked, i) \<Rightarrow> None
      | (Returned err, i) \<Rightarrow>
          (let s0 = s\<lparr>daemon_ie := i\<rparr>;
               e0 = [ClientDo (getJob_request (daemon_ie s) (Id (daemon_job s)))];
               rest =
                 (case os_Stat w of
                    StatOk modTime \<Rightarrow>
                      if now_ModTime_check w < modTime + waitingForButtonInterval then
                        (if checkButtonPressed w then
                           (case UpdateStatus fmt_f1 w s0 StatusSending of
                              (s1, e1) \<Rightarrow> Some (s1, e0 @ [CheckButtonPressed] @ e1))
                         else Some (s0, e0 @ [CheckButtonPressed]))
                      else if now_Scheduled_check w < Scheduled (daemon_job s0) then
                        Some (s0, e0)
                      else
                        (case UpdateStatus fmt_f1 w s0 StatusButtonTimeout of
                           (s1, e1) \<Rightarrow>
                             (case UpdateStatus fmt_f1 w s1 StatusWaitingJob of
                                (s2, e2) \<Rightarrow>
                                  Some (s2\<lparr>daemon_job := (daemon_job s2)\<lparr>Id := 0\<rparr>\<rparr>,
                                    e0 @ e1 @ e2 @ [Os_Remove gizmostatusfile])))
                  | _ \<Rightarrow>
                      (case UpdateStatus fmt_f1 w s0 StatusCancelling of
                         (s1, e1) \<Rightarrow> Some (s1, e0 @ e1)))
           in if err = None then
                (case job i of
                   None \<Rightarrow> None
                 | Some r \<Rightarrow>
                     if Status r = StatusCancelling then
                       (case UpdateStatus fmt_f1 w s0 StatusCancelling of
                          (s1, e1) \<Rightarrow> Some (s1, e0 @ e1))
                     else rest)
              else rest))"

definition waiting_job2 ::
  "(real \<Rightarrow> string) \<Rightarrow> juggler_Job world \<Rightarrow> juggler_Job daemon
     \<Rightarrow> (juggler_Job daemon \<times> effect list) option" where
  "waiting_job2 fmt_f1 w s =
     (case nextJob (daemon_ie s) (client_Do w) of
        (Panicked, i) \<Rightarrow> None
      | (Returned (Some e), i) \<Rightarrow>
          Some (s\<lparr>daemon_ie := i\<rparr>, [ClientDo (getJob_request (daemon_ie s) 0)])
      | (Returned None, i) \<Rightarrow>
          (case job i of
             None \<Rightarrow> None
           | Some r \<Rightarrow>
               (let d = (daemon_job s)
                      \<lparr>Id := Id r, Filename := Filename r, FileContent := FileContent r,
                       Progress := Progress r, Owner := Owner r,
                       Fetched := now_Fetched w,
                       Scheduled := now_Scheduled w + waitingForButtonInterval\<rparr>;
                    e1 = [ClientDo (getJob_request (daemon_ie s) 0),
                          Os_Remove buttonfile, Os_Remove gizmostatusfile,
                          Os_Create gizmostatusfile, Os_Chmod gizmostatusfile]
                in case UpdateStatus fmt_f1 w \<lparr>daemon_job = d, daemon_ie = i\<rparr> StatusWaitingButton of
                     (s1, e2) \<Rightarrow>
                       (case waiting_button2 fmt_f1 w s1 of
                          None \<Rightarrow> None
                        | Some (s2, e3) \<Rightarrow> Some (s2, e1 @ e2 @ e3)))))"

definition sending2 ::
  "(real \<Rightarrow> string) \<Rightarrow> juggler_Job world \<Rightarrow> juggler_Job daemon
     \<Rightarrow> juggler_Job daemon \<times> effect list" where
  "sending2 fmt_f1 w s =
     (let d = daemon_job s in
      if WriteFile_fails w then (s, [WriteFile jobfile (FileContent d)])
      else if NewFeeder_fails w then
        (s, [WriteFile jobfile (FileContent d), NewFeeder ''/dev/ttyACM0'' jobfile])
      else
        (case UpdateStatus fmt_f1 w s StatusPrinting of
           (s1, e1) \<Rightarrow>
             (s1, [WriteFile jobfile (FileContent d), NewFeeder ''/dev/ttyACM0'' jobfile]
                  @ e1 @ [Go_Feed])))"

definition printing2 ::
  "(real \<Rightarrow> string) \<Rightarrow> juggler_Job world \<Rightarrow> juggler_Job daemon
     \<Rightarrow> (juggler_Job daemon \<times> effect list) option" where
  "printing2 fmt_f1 w s =
     (if os_Stat w = NotExist then
        (case UpdateStatus fmt_f1 w s StatusCancelling of
           (s1, e1) \<Rightarrow> Some (s1, [Feeder_Cancel] @ e1))
      else
        (case getJob (daemon_ie s) (Id (daemon_job s)) (client_Do w) of
           (Panicked, i) \<Rightarrow> None
         | (Returned err, i) \<Rightarrow>
             (let s0 = s\<lparr>daemon_ie := i\<rparr>;
                  e0 = [ClientDo (getJob_request (daemon_ie s) (Id (daemon_job s)))];
                  rest =
                    (let d1 = (daemon_job s0)\<lparr>Progress := feeder_Progress w\<rparr>;
                         d2 = d1\<lparr>feederStatus := feeder_Status w\<rparr>;
                         s1 = s0\<lparr>daemon_job := d2\<rparr>
                     in case (case feederStatus d2 of
                                Finished \<Rightarrow> UpdateStatus fmt_f1 w s1 StatusFinished
                              | Error \<Rightarrow> UpdateStatus fmt_f1 w s1 StatusCancelling
                              | _ \<Rightarrow> UpdateStatus fmt_f1 w s1 (Status (daemon_job s1))) of
                          (s2, e1) \<Rightarrow> Some (s2, e0 @ e1))
              in if err = None then
                   (case job i of
                      None \<Rightarrow> None
                    | Some r \<Rightarrow>
                        if Status r = StatusCancelling then
                          (case UpdateStatus fmt_f1 w s0 StatusCancelling of
                             (s1, e1) \<Rightarrow> Some (s1, e0 @ e1 @ [Feeder_Cancel]))
                        else rest)
                 else rest)))"

definition cancelling_finished2 ::
  "(real \<Rightarrow> string) \<Rightarrow> juggler_Job world \<Rightarrow> juggler_Job daemon
     \<Rightarrow> juggler_Job daemon \<times> effect list" where
  "cancelling_finished2 fmt_f1 w s =
     (let err = deleteJob (daemon_ie s) (daemon_job s) (client_Do w);
          e0 = [ClientDo (deleteJob_request (daemon_ie s) (daemon_job s))];
          s0 = s\<lparr>daemon_job := (daemon_job s)\<lparr>Id := 0\<rparr>\<rparr>
      in case UpdateStatus fmt_f1 w s0 StatusWaitingJob of
           (s1, e1) \<Rightarrow> (s1, e0 @ e1 @ [Os_Remove gizmostatusfile]))"

definition tick2 ::
  "(real \<Rightarrow> string) \<Rightarrow> juggler_Job world \<Rightarrow> juggler_Job daemon
     \<Rightarrow> (juggler_Job daemon \<times> effect list) option" where
  "tick2 fmt_f1 w s =
     (let err = reportStat (daemon_ie s) (client_Do w);
          e0 = [ClientDo (reportStat_request (daemon_ie s))];
          st = Status (daemon_job s);
          handled =
            (if st = StatusWaitingJob then waiting_job2 fmt_f1 w s
             else if st = StatusWaitingButton then waiting_button2 fmt_f1 w s
             else if st = StatusSending then Some (sending2 fmt_f1 w s)
             else if st = StatusPrinting then printing2 fmt_f1 w s
             else if st = StatusCancelling \<or> st = StatusFinished then
               Some (cancelling_finished2 fmt_f1 w s)
             else Some (s, []))
      in case handled of
           None \<Rightarrow> None
         | Some (s', e) \<Rightarrow> Some (s', e0 @ e))"

subsection \<open>Concrete values\<close>

text \<open>
  Values with which the theorems below are instantiated: the zero value \<open>Job{}\<close>, a job
  as the remote service returns it, the client as \<open>main\<close> builds it, a daemon waiting
  for the button and one that prints, a world in which the remote service cannot be
  reached and the signal file was written at time \<open>0\<close>, and a formatter for \<open>fmt_f1\<close>
  that prints one decimal place, a tie going to the even digit.
\<close>

definition Sprintf_f1 :: "real \<Rightarrow> string" where
  "Sprintf_f1 x =
     (let t = \<bar>x\<bar> * 10;
          f = \<lfloor>t\<rfloor>;
          n = (if t - of_int f < 1 / 2 then f
               else if 1 / 2 < t - of_int f then f + 1
               else if even f then f else f + 1)
      in (if x < 0 then ''-'' else []) @ digits (nat (n div 10)) @ ''.'' @ digits (nat (n mod 10)))"

definition zero_Job :: Job where
  "zero_Job = \<lparr>Id = 0, Filename = [], FileContent = [], Owner = [], Status = [],
     Progress = 0, feederStatus = Idle\<rparr>"

definition remote_Job :: Job where
  "remote_Job = \<lparr>Id = 7, Filename = ''cube.gcode'', FileContent = ''G28'', Owner = ''ada'',
     Status = ''Waiting for a button'', Progress = 0, feederStatus = Idle\<rparr>"

definition main_ie :: "Job InternEnpoint" where
  "main_ie = \<lparr>Api_app = ''3djuggler'', Api_key = ''secret'', Api_uri = ''https://intern'',
     job = Some zero_Job, PrinterName = ''prusa'', OfficeName = ''lab''\<rparr>"

definition waiting1 :: "Job daemon" where
  "waiting1 = \<lparr>daemon_job = remote_Job, daemon_ie = main_ie\<rparr>"

definition printing_daemon1 :: "Job daemon" where
  "printing_daemon1 = \<lparr>daemon_job = remote_Job\<lparr>Status := ''Printing''\<rparr>, daemon_ie = main_ie\<rparr>"

definition zero_juggler_Job :: juggler_Job where
  "zero_juggler_Job = \<lparr>Id = 0, Filename = [], FileContent = [], Owner = [], Status = [],
     Progress = 0, feederStatus = Idle, Fetched = 0, Scheduled = 0\<rparr>"

text \<open>A job fetched at time \<open>0\<close>: its deadline is \<open>waitingForButtonInterval\<close>.\<close>

definition remote_juggler_Job :: juggler_Job where
  "remote_juggler_Job = \<lparr>Id = 7, Filename = ''cube.gcode'', FileContent = ''G28'',
     Owner = ''ada'', Status = ''Waiting for a button'', Progress = 0, feederStatus = Idle,
     Fetched = 0, Scheduled = 600000000000\<rparr>"

definition main_ie2 :: "juggler_Job InternEnpoint" where
  "main_ie2 = \<lparr>Api_app = ''3djuggler'', Api_key = ''secret'', Api_uri = ''https://intern'',
     job = Some zero_juggler_Job, PrinterName = ''prusa'', OfficeName = ''lab''\<rparr>"

definition waiting2 :: "juggler_Job daemon" where
  "waiting2 = \<lparr>daemon_job = remote_juggler_Job, daemon_ie = main_ie2\<rparr>"

definition printing_daemon2 :: "juggler_Job daemon" where
  "printing_daemon2 =
     \<lparr>daemon_job = remote_juggler_Job\<lparr>Status := ''Printing''\<rparr>, daemon_ie = main_ie2\<rparr>"

definition unreachable :: "request \<Rightarrow> 'j http_result" where
  "unreachable r = DoError ''connection refused''"

definition answers :: "'j body \<Rightarrow> request \<Rightarrow> 'j http_result" where
  "answers b r = Response 200 b"

definition offline :: "'j world" where
  "offline = \<lparr>client_Do = unreachable, os_Stat = StatOk 0,
     now_Fetched = 0, now_Scheduled = 0, now_ModTime_check = 0, now_Scheduled_check = 0,
     checkButtonPressed = False, WriteFile_fails = False, NewFeeder_fails = False,
     feeder_Progress = 0, feeder_Status = Idle\<rparr>"

section \<open>Properties\<close>

subsection \<open>The remote operations\<close>

text \<open>
  C5. \<open>getJob\<close> returns an error exactly when the transport fails, the body cannot be
  read, the body cannot be decoded, the decoded response has \<open>Success = false\<close>, or the
  decoded job has \<open>Id = 0\<close>. The last case, and only it, returns the error
  "Nothing to print". It returns \<open>nil\<close> exactly when the response decodes with
  \<open>Success = true\<close> and a job whose \<open>Id\<close> is not \<open>0\<close>, and that job is then the stored
  snapshot \<open>ie.job\<close>.
\<close>

theorem getJob_error_iff:
  "((\<exists>e. fst (getJob ie jid c) = Returned (Some e)) =
      ((\<exists>e. c (getJob_request ie jid) = DoError e)
       \<or> (\<exists>code e. c (getJob_request ie jid) = Response code (Unreadable e))
       \<or> (\<exists>code e. c (getJob_request ie jid) = Response code (Undecodable e))
       \<or> (\<exists>code content msg.
             c (getJob_request ie jid) = Response code (Decoded False content msg))
       \<or> (\<exists>code j msg.
             c (getJob_request ie jid) = Response code (Decoded True (Some j) msg) \<and> Id j = 0)))
   \<and> ((fst (getJob ie jid c) = Returned (Some NothingToPrint)) =
        (\<exists>code j msg.
           c (getJob_request ie jid) = Response code (Decoded True (Some j) msg) \<and> Id j = 0))
   \<and> ((fst (getJob ie jid c) = Returned None) =
        (\<exists>code j msg.
           c (getJob_request ie jid) = Response code (Decoded True (Some j) msg)
           \<and> Id j \<noteq> 0 \<and> job (snd (getJob ie jid c)) = Some j))"
  by (auto simp: getJob_def Let_def split: http_result.splits body.splits option.splits)

text \<open>
  C9. \<open>reportJobStatusChange\<close>, \<open>deleteJob\<close>, \<open>reschedule\<close> and \<open>reportStat\<close> return an
  error exactly when \<open>client.Do\<close> fails. Whatever the status code and the body of a
  response are (a decoded body with \<open>Success = false\<close> included), they return \<open>nil\<close>.
\<close>

theorem side_effect_only_error_iff_transport:
  "((\<exists>err. reportJobStatusChange fmt_f1 ie j c = Some err) =
      (\<exists>e. c (reportJobStatusChange_request fmt_f1 ie j) = DoError e))
   \<and> ((\<exists>err. deleteJob ie j c = Some err) = (\<exists>e. c (deleteJob_request ie j) = DoError e))
   \<and> ((\<exists>err. reschedule ie c = Some err) = (\<exists>e. c (reschedule_request ie) = DoError e))
   \<and> ((\<exists>err. reportStat ie c = Some err) = (\<exists>e. c (reportStat_request ie) = DoError e))
   \<and> reportJobStatusChange fmt_f1 ie j (\<lambda>r. Response code b) = None
   \<and> deleteJob ie j (\<lambda>r. Response code b) = None
   \<and> reschedule ie (\<lambda>r. Response code b) = None
   \<and> reportStat ie (\<lambda>r. Response code b) = None"
  by (auto simp: reportJobStatusChange_def deleteJob_def reschedule_def reportStat_def
      split: http_result.splits)

text \<open>
  C10. \<open>getJob\<close> assigns the decoded content to \<open>ie.job\<close> before it tests \<open>Id\<close>: when the
  response decodes with \<open>Success = true\<close> and a job with \<open>Id = 0\<close>, the error is
  "Nothing to print" and the stored snapshot is that job; after any other error the
  client is unchanged.
\<close>

theorem getJob_overwrites_before_Id_check:
  "(c (getJob_request ie jid) = Response code (Decoded True (Some j) msg) \<and> Id j = 0 \<longrightarrow>
      getJob ie jid c = (Returned (Some NothingToPrint), ie\<lparr>job := Some j\<rparr>))
   \<and> (fst (getJob ie jid c) = Returned (Some e) \<and> e \<noteq> NothingToPrint \<longrightarrow>
        snd (getJob ie jid c) = ie)"
  by (auto simp: getJob_def Let_def split: http_result.splits body.splits option.splits)

theorem getJob_overwrites_before_Id_check_witness:
  "getJob (main_ie\<lparr>job := Some remote_Job\<rparr>) 0 (\<lambda>r. Response 200 (Decoded True (Some zero_Job) []))
     = (Returned (Some NothingToPrint), main_ie\<lparr>job := Some zero_Job\<rparr>)
   \<and> fst (getJob (main_ie\<lparr>job := Some remote_Job\<rparr>) 7 (\<lambda>r. DoError ''timeout''))
       = Returned (Some (TransportError ''timeout''))
   \<and> snd (getJob (main_ie\<lparr>job := Some remote_Job\<rparr>) 7 (\<lambda>r. DoError ''timeout''))
       = main_ie\<lparr>job := Some remote_Job\<rparr>"
proof -
  have zero: "Id zero_Job = 0"
    by (simp add: zero_Job_def)
  have failed: "fst (getJob (main_ie\<lparr>job := Some remote_Job\<rparr>) 7 (\<lambda>r. DoError ''timeout''))
      = Returned (Some (TransportError ''timeout''))"
    by (simp add: getJob_def)
  note empty = getJob_overwrites_before_Id_check
    [where c = "\<lambda>r. Response 200 (Decoded True (Some zero_Job) [])"
       and ie = "main_ie\<lparr>job := Some remote_Job\<rparr>" and jid = 0 and code = 200
       and j = zero_Job and msg = "[]"]
  note down = getJob_overwrites_before_Id_check
    [where c = "\<lambda>r. DoError ''timeout''" and ie = "main_ie\<lparr>job := Some remote_Job\<rparr>"
       and jid = 7 and e = "TransportError ''timeout''"]
  from empty down show ?thesis
    using zero failed by simp
qed

subsection \<open>Facts about \<open>getJob\<close> used below\<close>

lemma getJob_nil_has_job:
  "getJob ie jid c = (Returned None, i) \<Longrightarrow> \<exists>r. job i = Some r \<and> Id r \<noteq> 0"
  by (auto simp: getJob_def Let_def split: http_result.splits body.splits option.splits if_splits)

lemma getJob_unreachable:
  "getJob ie jid unreachable = (Returned (Some (TransportError ''connection refused'')), ie)"
  by (simp add: getJob_def unreachable_def)

lemma getJob_answers:
  "getJob ie jid (answers (Decoded True (Some r) msg)) =
     (if Id r = 0 then Returned (Some NothingToPrint) else Returned None, ie\<lparr>job := Some r\<rparr>)"
  by (simp add: getJob_def answers_def)

lemma getJob_answers_no_content:
  "getJob ie jid (answers (Decoded True None msg)) = (Panicked, ie\<lparr>job := None\<rparr>)"
  by (simp add: getJob_def answers_def)

lemma Status_update_same: "Status d = x \<Longrightarrow> d\<lparr>Status := x\<rparr> = d"
  by auto

subsection \<open>Waiting for the button\<close>

lemma waiting_for_a_button1_check:
  "waiting_for_a_button1 fmt_f1 w s = Some (s', es) \<Longrightarrow> CheckButtonPressed \<in> set es \<Longrightarrow>
   (\<exists>m. os_Stat w = StatOk m \<and> now_ModTime_check w < m + waitingForButtonInterval)"
  by (auto simp: waiting_for_a_button1_def Let_def
      split: prod.splits outcome.splits option.splits if_splits stat_result.splits)

lemma waiting_button2_check:
  "waiting_button2 fmt_f1 w s = Some (s', es) \<Longrightarrow> CheckButtonPressed \<in> set es \<Longrightarrow>
   (\<exists>m. os_Stat w = StatOk m \<and> now_ModTime_check w < m + waitingForButtonInterval)"
  by (auto simp: waiting_button2_def UpdateStatus_def Let_def
      split: prod.splits outcome.splits option.splits if_splits stat_result.splits)

lemma tick1_check:
  "tick1 fmt_f1 w s = Some (s', es) \<Longrightarrow> CheckButtonPressed \<in> set es \<Longrightarrow>
   (\<exists>m. os_Stat w = StatOk m \<and> now_ModTime_check w < m + waitingForButtonInterval)"
  by (auto simp: tick1_def waiting_for_job1_def sending_to_printer1_def printing1_def
        cancelling_finished1_def Let_def
      dest: waiting_for_a_button1_check
      split: prod.splits outcome.splits option.splits if_splits FeederStatus.splits)

lemma tick2_check:
  "tick2 fmt_f1 w s = Some (s', es) \<Longrightarrow> CheckButtonPressed \<in> set es \<Longrightarrow>
   (\<exists>m. os_Stat w = StatOk m \<and> now_ModTime_check w < m + waitingForButtonInterval)"
  by (auto simp: tick2_def waiting_job2_def sending2_def printing2_def cancelling_finished2_def
        UpdateStatus_def Let_def
      dest: waiting_button2_check
      split: prod.splits outcome.splits option.splits if_splits FeederStatus.splits)

lemma waiting_for_a_button1_Sending:
  "waiting_for_a_button1 fmt_f1 w s = Some (s', es) \<Longrightarrow>
   Status (daemon_job s) \<noteq> ''Sending to printer'' \<Longrightarrow>
   Status (daemon_job s') = ''Sending to printer'' \<Longrightarrow> CheckButtonPressed \<in> set es"
  by (auto simp: waiting_for_a_button1_def Let_def
      split: prod.splits outcome.splits option.splits if_splits stat_result.splits)

lemma waiting_button2_Sending:
  "waiting_button2 fmt_f1 w s = Some (s', es) \<Longrightarrow>
   Status (daemon_job s) \<noteq> StatusSending \<Longrightarrow>
   Status (daemon_job s') = StatusSending \<Longrightarrow> CheckButtonPressed \<in> set es"
  by (auto simp: waiting_button2_def UpdateStatus_def Let_def
        StatusSending_def StatusCancelling_def StatusWaitingJob_def
      split: prod.splits outcome.splits option.splits if_splits stat_result.splits)

lemma tick1_Sending:
  "tick1 fmt_f1 w s = Some (s', es) \<Longrightarrow>
   Status (daemon_job s) \<noteq> ''Sending to printer'' \<Longrightarrow>
   Status (daemon_job s') = ''Sending to printer'' \<Longrightarrow> CheckButtonPressed \<in> set es"
  by (auto simp: tick1_def waiting_for_job1_def sending_to_printer1_def printing1_def
        cancelling_finished1_def Let_def
      dest: waiting_for_a_button1_Sending
      split: prod.splits outcome.splits option.splits if_splits FeederStatus.splits)

lemma tick2_Sending:
  "tick2 fmt_f1 w s = Some (s', es) \<Longrightarrow>
   Status (daemon_job s) \<noteq> StatusSending \<Longrightarrow>
   Status (daemon_job s') = StatusSending \<Longrightarrow> CheckButtonPressed \<in> set es"
  by (auto simp: tick2_def waiting_job2_def sending2_def printing2_def cancelling_finished2_def
        UpdateStatus_def Let_def StatusSending_def StatusCancelling_def StatusWaitingJob_def
        StatusWaitingButton_def StatusPrinting_def StatusFinished_def
      dest: waiting_button2_Sending
      split: prod.splits outcome.splits option.splits if_splits FeederStatus.splits)

lemma waiting_button2_open:
  assumes "getJob (daemon_ie s) (Id (daemon_job s)) (client_Do w) = (Returned err, i)"
    and "\<not> (err = None \<and> map_option Status (job i) = Some StatusCancelling)"
    and "os_Stat w = StatOk m"
    and "now_ModTime_check w < m + waitingForButtonInterval"
  shows "waiting_button2 fmt_f1 w s =
     Some (if checkButtonPressed w
        then (\<lparr>daemon_job = (daemon_job s)\<lparr>Status := StatusSending\<rparr>, daemon_ie = i\<rparr>,
              [ClientDo (getJob_request (daemon_ie s) (Id (daemon_job s))), CheckButtonPressed,
               ClientDo (reportJobStatusChange_request fmt_f1 i
                  ((daemon_job s)\<lparr>Status := StatusSending\<rparr>))])
        else (\<lparr>daemon_job = daemon_job s, daemon_ie = i\<rparr>,
              [ClientDo (getJob_request (daemon_ie s) (Id (daemon_job s))), CheckButtonPressed]))"
proof (cases err)
  case None
  with assms(1) obtain r where r: "job i = Some r"
    using getJob_nil_has_job by blast
  with None assms show ?thesis
    by (simp add: waiting_button2_def UpdateStatus_def Let_def)
next
  case (Some e)
  with assms show ?thesis
    by (simp add: waiting_button2_def UpdateStatus_def Let_def)
qed

text \<open>
  C1, as amended. While the signal file is present, the button is checked, and the
  status becomes "Sending to printer" when it is pressed, only while the file's
  modification time plus \<open>waitingForButtonInterval\<close> is still in the future: a tick of
  either revision that checks the button, or that takes the job to "Sending to printer",
  has found the file present and that clock running. \<open>Job.Scheduled\<close> does not gate the
  check: in revision 2 a tick in state \<open>WaitingButton\<close> whose remote fetch returns without
  reporting "Cancelling" and that finds the file clock running checks the button
  whatever \<open>Job.Scheduled\<close> is.
\<close>

theorem button_check_gated_by_file_clock:
  "(tick1 fmt_f1 w1 s1 = Some (s1', es1)
      \<and> (CheckButtonPressed \<in> set es1
          \<or> Status (daemon_job s1) \<noteq> ''Sending to printer''
            \<and> Status (daemon_job s1') = ''Sending to printer'') \<longrightarrow>
      (\<exists>m. os_Stat w1 = StatOk m \<and> now_ModTime_check w1 < m + waitingForButtonInterval))
   \<and> (tick2 fmt_f1 w2 s2 = Some (s2', es2)
      \<and> (CheckButtonPressed \<in> set es2
          \<or> Status (daemon_job s2) \<noteq> StatusSending
            \<and> Status (daemon_job s2') = StatusSending) \<longrightarrow>
      (\<exists>m. os_Stat w2 = StatOk m \<and> now_ModTime_check w2 < m + waitingForButtonInterval))
   \<and> (Status (daemon_job s) = StatusWaitingButton
        \<and> getJob (daemon_ie s) (Id (daemon_job s)) (client_Do w) = (Returned err, i)
        \<and> \<not> (err = None \<and> map_option Status (job i) = Some StatusCancelling)
        \<and> os_Stat w = StatOk m
        \<and> now_ModTime_check w < m + waitingForButtonInterval \<longrightarrow>
      tick2 fmt_f1 w s =
        Some (if checkButtonPressed w
          then (\<lparr>daemon_job = (daemon_job s)\<lparr>Status := StatusSending\<rparr>, daemon_ie = i\<rparr>,
                [ClientDo (reportStat_request (daemon_ie s)),
                 ClientDo (getJob_request (daemon_ie s) (Id (daemon_job s))), CheckButtonPressed,
                 ClientDo (reportJobStatusChange_request fmt_f1 i
                    ((daemon_job s)\<lparr>Status := StatusSending\<rparr>))])
          else (\<lparr>daemon_job = daemon_job s, daemon_ie = i\<rparr>,
                [ClientDo (reportStat_request (daemon_ie s)),
                 ClientDo (getJob_request (daemon_ie s) (Id (daemon_job s))),
                 CheckButtonPressed])))"
proof (intro conjI impI)
  assume a: "tick1 fmt_f1 w1 s1 = Some (s1', es1)
      \<and> (CheckButtonPressed \<in> set es1
          \<or> Status (daemon_job s1) \<noteq> ''Sending to printer''
            \<and> Status (daemon_job s1') = ''Sending to printer'')"
  then have "CheckButtonPressed \<in> set es1"
    using tick1_Sending by blast
  with a show "\<exists>m. os_Stat w1 = StatOk m \<and> now_ModTime_check w1 < m + waitingForButtonInterval"
    using tick1_check by blast
next
  assume a: "tick2 fmt_f1 w2 s2 = Some (s2', es2)
      \<and> (CheckButtonPressed \<in> set es2
          \<or> Status (daemon_job s2) \<noteq> StatusSending
            \<and> Status (daemon_job s2') = StatusSending)"
  then have "CheckButtonPressed \<in> set es2"
    using tick2_Sending by blast
  with a show "\<exists>m. os_Stat w2 = StatOk m \<and> now_ModTime_check w2 < m + waitingForButtonInterval"
    using tick2_check by blast
next
  assume a: "Status (daemon_job s) = StatusWaitingButton
        \<and> getJob (daemon_ie s) (Id (daemon_job s)) (client_Do w) = (Returned err, i)
        \<and> \<not> (err = None \<and> map_option Status (job i) = Some StatusCancelling)
        \<and> os_Stat w = StatOk m
        \<and> now_ModTime_check w < m + waitingForButtonInterval"
  then have "waiting_button2 fmt_f1 w s =
     Some (if checkButtonPressed w
        then (\<lparr>daemon_job = (daemon_job s)\<lparr>Status := StatusSending\<rparr>, daemon_ie = i\<rparr>,
              [ClientDo (getJob_request (daemon_ie s) (Id (daemon_job s))), CheckButtonPressed,
               ClientDo (reportJobStatusChange_request fmt_f1 i
                  ((daemon_job s)\<lparr>Status := StatusSending\<rparr>))])
        else (\<lparr>daemon_job = daemon_job s, daemon_ie = i\<rparr>,
              [ClientDo (getJob_request (daemon_ie s) (Id (daemon_job s))), CheckButtonPressed]))"
    using waiting_button2_open by blast
  with a show "tick2 fmt_f1 w s =
        Some (if checkButtonPressed w
          then (\<lparr>daemon_job = (daemon_job s)\<lparr>Status := StatusSending\<rparr>, daemon_ie = i\<rparr>,
                [ClientDo (reportStat_request (daemon_ie s)),
                 ClientDo (getJob_request (daemon_ie s) (Id (daemon_job s))), CheckButtonPressed,
                 ClientDo (reportJobStatusChange_request fmt_f1 i
                    ((daemon_job s)\<lparr>Status := StatusSending\<rparr>))])
          else (\<lparr>daemon_job = daemon_job s, daemon_ie = i\<rparr>,
                [ClientDo (reportStat_request (daemon_ie s)),
                 ClientDo (getJob_request (daemon_ie s) (Id (daemon_job s))),
                 CheckButtonPressed]))"
    by (simp add: tick2_def Let_def StatusWaitingButton_def StatusWaitingJob_def)
qed

text \<open>
  An instance: with the remote service unreachable and the signal file written at time
  \<open>0\<close>, a tick at time \<open>0\<close> checks the button in both revisions, and revision 2 goes to
  "Sending to printer" when the button is pressed.
\<close>

theorem button_check_gated_by_file_clock_witness:
  "tick1 Sprintf_f1 offline waiting1
     = Some (waiting1,
         [ClientDo (reportStat_request main_ie), ClientDo (getJob_request main_ie 7),
          CheckButtonPressed])
   \<and> (\<exists>m. os_Stat (offline :: Job world) = StatOk m
         \<and> now_ModTime_check (offline :: Job world) < m + waitingForButtonInterval)
   \<and> tick2 Sprintf_f1 offline waiting2
     = Some (waiting2,
         [ClientDo (reportStat_request main_ie2), ClientDo (getJob_request main_ie2 7),
          CheckButtonPressed])
   \<and> (\<exists>m. os_Stat (offline :: juggler_Job world) = StatOk m
         \<and> now_ModTime_check (offline :: juggler_Job world) < m + waitingForButtonInterval)
   \<and> tick2 Sprintf_f1 (offline\<lparr>checkButtonPressed := True\<rparr>) waiting2
     = Some (\<lparr>daemon_job = remote_juggler_Job\<lparr>Status := StatusSending\<rparr>, daemon_ie = main_ie2\<rparr>,
         [ClientDo (reportStat_request main_ie2), ClientDo (getJob_request main_ie2 7),
          CheckButtonPressed,
          ClientDo (reportJobStatusChange_request Sprintf_f1 main_ie2
             (remote_juggler_Job\<lparr>Status := StatusSending\<rparr>))])"
proof -
  have t1: "tick1 Sprintf_f1 offline waiting1
     = Some (waiting1,
         [ClientDo (reportStat_request main_ie), ClientDo (getJob_request main_ie 7),
          CheckButtonPressed])"
    by (simp add: tick1_def waiting_for_a_button1_def Let_def getJob_unreachable offline_def
        waiting1_def remote_Job_def waitingForButtonInterval_def)
  have t2: "tick2 Sprintf_f1 offline waiting2
     = Some (waiting2,
         [ClientDo (reportStat_request main_ie2), ClientDo (getJob_request main_ie2 7),
          CheckButtonPressed])"
    by (simp add: tick2_def waiting_button2_def Let_def getJob_unreachable offline_def
        waiting2_def remote_juggler_Job_def waitingForButtonInterval_def
        StatusWaitingJob_def StatusWaitingButton_def)
  have g: "getJob main_ie2 7 unreachable
     = (Returned (Some (TransportError ''connection refused'')), main_ie2)"
    by (simp add: getJob_unreachable)
  have h: "Status remote_juggler_Job = StatusWaitingButton" "Id remote_juggler_Job = 7"
    "daemon_job waiting2 = remote_juggler_Job" "daemon_ie waiting2 = main_ie2"
    "os_Stat (offline :: juggler_Job world) = StatOk 0"
    "os_Stat (offline :: Job world) = StatOk 0"
    "client_Do (offline :: juggler_Job world) = unreachable"
    "now_ModTime_check (offline :: juggler_Job world) = 0"
    "now_ModTime_check (offline :: Job world) = 0"
    "0 < waitingForButtonInterval"
    by (simp_all add: offline_def waiting2_def remote_juggler_Job_def StatusWaitingButton_def
        waitingForButtonInterval_def)
  note inst = button_check_gated_by_file_clock
    [where ?fmt_f1.0 = Sprintf_f1 and ?w1.0 = offline and ?s1.0 = waiting1 and s1' = waiting1
       and ?es1.0 = "[ClientDo (reportStat_request main_ie), ClientDo (getJob_request main_ie 7),
          CheckButtonPressed]"
       and ?w2.0 = offline and ?s2.0 = waiting2 and s2' = waiting2
       and ?es2.0 = "[ClientDo (reportStat_request main_ie2), ClientDo (getJob_request main_ie2 7),
          CheckButtonPressed]"
       and w = "offline\<lparr>checkButtonPressed := True\<rparr>" and s = waiting2
       and err = "Some (TransportError ''connection refused'')" and i = main_ie2 and m = 0]
  from inst t1 t2 show ?thesis
    by (simp add: g h)
qed

text \<open>
  C1 as stated fails in revision 2. The job was fetched at time \<open>0\<close>, so \<open>Job.Scheduled\<close> is
  ten minutes; the signal file was written one millisecond later. Half a millisecond
  after \<open>Job.Scheduled\<close> has expired the file clock is still running, the button is
  checked, and the pressed button moves the job to "Sending to printer".
\<close>

theorem button_checked_after_Scheduled:
  "Scheduled remote_juggler_Job \<le> 600000500000
   \<and> tick2 Sprintf_f1
       (offline\<lparr>os_Stat := StatOk 1000000, now_ModTime_check := 600000500000,
          now_Scheduled_check := 600000500000, checkButtonPressed := True\<rparr>) waiting2
     = Some (\<lparr>daemon_job = remote_juggler_Job\<lparr>Status := StatusSending\<rparr>, daemon_ie = main_ie2\<rparr>,
         [ClientDo (reportStat_request main_ie2), ClientDo (getJob_request main_ie2 7),
          CheckButtonPressed,
          ClientDo (reportJobStatusChange_request Sprintf_f1 main_ie2
             (remote_juggler_Job\<lparr>Status := StatusSending\<rparr>))])"
  by (simp add: tick2_def waiting_button2_def UpdateStatus_def Let_def getJob_unreachable
      offline_def waiting2_def remote_juggler_Job_def waitingForButtonInterval_def
      StatusWaitingJob_def StatusWaitingButton_def StatusSending_def)

subsection \<open>The button timeout\<close>

lemma waiting_for_a_button1_timeout:
  assumes "getJob (daemon_ie s) (Id (daemon_job s)) (client_Do w) = (Returned err, i)"
    and "\<not> (err = None \<and> map_option Status (job i) = Some ''Cancelling'')"
    and "os_Stat w = StatOk m"
    and "m + waitingForButtonInterval \<le> now_ModTime_check w"
  shows "waiting_for_a_button1 fmt_f1 w s =
     Some (\<lparr>daemon_job = (daemon_job s)\<lparr>Status := ''Waiting for job'', Id := 0\<rparr>, daemon_ie = i\<rparr>,
       [ClientDo (getJob_request (daemon_ie s) (Id (daemon_job s))),
        ClientDo (reportJobStatusChange_request fmt_f1 i
           ((daemon_job s)\<lparr>Status := ''Button timeout''\<rparr>)),
        Os_Remove gizmostatusfile])"
proof (cases err)
  case None
  with assms(1) obtain r where "job i = Some r"
    using getJob_nil_has_job by blast
  with None assms show ?thesis
    by (simp add: waiting_for_a_button1_def Let_def)
next
  case (Some e)
  with assms show ?thesis
    by (simp add: waiting_for_a_button1_def Let_def)
qed

lemma waiting_button2_timeout:
  assumes "getJob (daemon_ie s) (Id (daemon_job s)) (client_Do w) = (Returned err, i)"
    and "\<not> (err = None \<and> map_option Status (job i) = Some StatusCancelling)"
    and "os_Stat w = StatOk m"
    and "m + waitingForButtonInterval \<le> now_ModTime_check w"
    and "Scheduled (daemon_job s) \<le> now_Scheduled_check w"
  shows "waiting_button2 fmt_f1 w s =
     Some (\<lparr>daemon_job = (daemon_job s)\<lparr>Status := StatusWaitingJob, Id := 0\<rparr>, daemon_ie = i\<rparr>,
       [ClientDo (getJob_request (daemon_ie s) (Id (daemon_job s))),
        ClientDo (reportJobStatusChange_request fmt_f1 i
           ((daemon_job s)\<lparr>Status := StatusButtonTimeout\<rparr>)),
        ClientDo (reportJobStatusChange_request fmt_f1 i
           ((daemon_job s)\<lparr>Status := StatusWaitingJob\<rparr>)),
        Os_Remove gizmostatusfile])"
proof (cases err)
  case None
  with assms(1) obtain r where "job i = Some r"
    using getJob_nil_has_job by blast
  with None assms show ?thesis
    by (simp add: waiting_button2_def UpdateStatus_def Let_def)
next
  case (Some e)
  with assms show ?thesis
    by (simp add: waiting_button2_def UpdateStatus_def Let_def)
qed

text \<open>
  C2, as amended. \<open>waitingForButtonInterval\<close> is ten minutes. In state "Waiting for a
  button", at a tick whose remote fetch returns without reporting "Cancelling" (it fails,
  or it reports another status), with the signal file present and its modification time
  plus \<open>waitingForButtonInterval\<close> no longer in the future, and in revision 2, for a job
  fetched at \<open>T0\<close>, with \<open>Job.Scheduled = T0 + waitingForButtonInterval\<close> no longer in the
  future either, the tick reports "Button timeout" to the remote service, ends with
  \<open>Status\<close> "Waiting for job" (which revision 2 reports as well) and \<open>Id = 0\<close>, and
  removes the signal file. The button is not checked in that tick.
\<close>

theorem button_timeout:
  "(Status (daemon_job s1) = ''Waiting for a button''
      \<and> getJob (daemon_ie s1) (Id (daemon_job s1)) (client_Do w1) = (Returned err1, i1)
      \<and> \<not> (err1 = None \<and> map_option Status (job i1) = Some ''Cancelling'')
      \<and> os_Stat w1 = StatOk m1
      \<and> m1 + waitingForButtonInterval \<le> now_ModTime_check w1 \<longrightarrow>
    tick1 fmt_f1 w1 s1 =
      Some (\<lparr>daemon_job = (daemon_job s1)\<lparr>Status := ''Waiting for job'', Id := 0\<rparr>, daemon_ie = i1\<rparr>,
        [ClientDo (reportStat_request (daemon_ie s1)),
         ClientDo (getJob_request (daemon_ie s1) (Id (daemon_job s1))),
         ClientDo (reportJobStatusChange_request fmt_f1 i1
            ((daemon_job s1)\<lparr>Status := ''Button timeout''\<rparr>)),
         Os_Remove gizmostatusfile]))
   \<and> (Status (daemon_job s2) = StatusWaitingButton
      \<and> Scheduled (daemon_job s2) = T0 + waitingForButtonInterval
      \<and> getJob (daemon_ie s2) (Id (daemon_job s2)) (client_Do w2) = (Returned err2, i2)
      \<and> \<not> (err2 = None \<and> map_option Status (job i2) = Some StatusCancelling)
      \<and> os_Stat w2 = StatOk m2
      \<and> m2 + waitingForButtonInterval \<le> now_ModTime_check w2
      \<and> T0 + waitingForButtonInterval \<le> now_Scheduled_check w2 \<longrightarrow>
    tick2 fmt_f1 w2 s2 =
      Some (\<lparr>daemon_job = (daemon_job s2)\<lparr>Status := StatusWaitingJob, Id := 0\<rparr>, daemon_ie = i2\<rparr>,
        [ClientDo (reportStat_request (daemon_ie s2)),
         ClientDo (getJob_request (daemon_ie s2) (Id (daemon_job s2))),
         ClientDo (reportJobStatusChange_request fmt_f1 i2
            ((daemon_job s2)\<lparr>Status := StatusButtonTimeout\<rparr>)),
         ClientDo (reportJobStatusChange_request fmt_f1 i2
            ((daemon_job s2)\<lparr>Status := StatusWaitingJob\<rparr>)),
         Os_Remove gizmostatusfile]))
   \<and> waitingForButtonInterval = 10 * 60 * 1000000000"
proof (intro conjI impI)
  assume a: "Status (daemon_job s1) = ''Waiting for a button''
      \<and> getJob (daemon_ie s1) (Id (daemon_job s1)) (client_Do w1) = (Returned err1, i1)
      \<and> \<not> (err1 = None \<and> map_option Status (job i1) = Some ''Cancelling'')
      \<and> os_Stat w1 = StatOk m1
      \<and> m1 + waitingForButtonInterval \<le> now_ModTime_check w1"
  then have "waiting_for_a_button1 fmt_f1 w1 s1 =
     Some (\<lparr>daemon_job = (daemon_job s1)\<lparr>Status := ''Waiting for job'', Id := 0\<rparr>, daemon_ie = i1\<rparr>,
       [ClientDo (getJob_request (daemon_ie s1) (Id (daemon_job s1))),
        ClientDo (reportJobStatusChange_request fmt_f1 i1
           ((daemon_job s1)\<lparr>Status := ''Button timeout''\<rparr>)),
        Os_Remove gizmostatusfile])"
    using waiting_for_a_button1_timeout by blast
  with a show "tick1 fmt_f1 w1 s1 =
      Some (\<lparr>daemon_job = (daemon_job s1)\<lparr>Status := ''Waiting for job'', Id := 0\<rparr>, daemon_ie = i1\<rparr>,
        [ClientDo (reportStat_request (daemon_ie s1)),
         ClientDo (getJob_request (daemon_ie s1) (Id (daemon_job s1))),
         ClientDo (reportJobStatusChange_request fmt_f1 i1
            ((daemon_job s1)\<lparr>Status := ''Button timeout''\<rparr>)),
         Os_Remove gizmostatusfile])"
    by (simp add: tick1_def Let_def)
next
  assume a: "Status (daemon_job s2) = StatusWaitingButton
      \<and> Scheduled (daemon_job s2) = T0 + waitingForButtonInterval
      \<and> getJob (daemon_ie s2) (Id (daemon_job s2)) (client_Do w2) = (Returned err2, i2)
      \<and> \<not> (err2 = None \<and> map_option Status (job i2) = Some StatusCancelling)
      \<and> os_Stat w2 = StatOk m2
      \<and> m2 + waitingForButtonInterval \<le> now_ModTime_check w2
      \<and> T0 + waitingForButtonInterval \<le> now_Scheduled_check w2"
  then have "waiting_button2 fmt_f1 w2 s2 =
     Some (\<lparr>daemon_job = (daemon_job s2)\<lparr>Status := StatusWaitingJob, Id := 0\<rparr>, daemon_ie = i2\<rparr>,
       [ClientDo (getJob_request (daemon_ie s2) (Id (daemon_job s2))),
        ClientDo (reportJobStatusChange_request fmt_f1 i2
           ((daemon_job s2)\<lparr>Status := StatusButtonTimeout\<rparr>)),
        ClientDo (reportJobStatusChange_request fmt_f1 i2
           ((daemon_job s2)\<lparr>Status := StatusWaitingJob\<rparr>)),
        Os_Remove gizmostatusfile])"
    using waiting_button2_timeout [of s2 w2 err2 i2 m2 fmt_f1] by simp
  with a show "tick2 fmt_f1 w2 s2 =
      Some (\<lparr>daemon_job = (daemon_job s2)\<lparr>Status := StatusWaitingJob, Id := 0\<rparr>, daemon_ie = i2\<rparr>,
        [ClientDo (reportStat_request (daemon_ie s2)),
         ClientDo (getJob_request (daemon_ie s2) (Id (daemon_job s2))),
         ClientDo (reportJobStatusChange_request fmt_f1 i2
            ((daemon_job s2)\<lparr>Status := StatusButtonTimeout\<rparr>)),
         ClientDo (reportJobStatusChange_request fmt_f1 i2
            ((daemon_job s2)\<lparr>Status := StatusWaitingJob\<rparr>)),
         Os_Remove gizmostatusfile])"
    by (simp add: tick2_def Let_def StatusWaitingButton_def StatusWaitingJob_def)
next
  show "waitingForButtonInterval = 10 * 60 * 1000000000"
    by (simp add: waitingForButtonInterval_def)
qed

text \<open>
  An instance: the job was fetched and the signal file written at time \<open>0\<close>, the remote
  service is unreachable, and the tick runs exactly ten minutes later.
\<close>

theorem button_timeout_witness:
  "tick1 Sprintf_f1 (offline\<lparr>now_ModTime_check := 600000000000\<rparr>) waiting1
     = Some (\<lparr>daemon_job = remote_Job\<lparr>Status := ''Waiting for job'', Id := 0\<rparr>, daemon_ie = main_ie\<rparr>,
         [ClientDo (reportStat_request main_ie), ClientDo (getJob_request main_ie 7),
          ClientDo (reportJobStatusChange_request Sprintf_f1 main_ie
             (remote_Job\<lparr>Status := ''Button timeout''\<rparr>)),
          Os_Remove gizmostatusfile])
   \<and> tick2 Sprintf_f1
       (offline\<lparr>now_ModTime_check := 600000000000, now_Scheduled_check := 600000000000\<rparr>)
       waiting2
     = Some (\<lparr>daemon_job = remote_juggler_Job\<lparr>Status := StatusWaitingJob, Id := 0\<rparr>,
              daemon_ie = main_ie2\<rparr>,
         [ClientDo (reportStat_request main_ie2), ClientDo (getJob_request main_ie2 7),
          ClientDo (reportJobStatusChange_request Sprintf_f1 main_ie2
             (remote_juggler_Job\<lparr>Status := StatusButtonTimeout\<rparr>)),
          ClientDo (reportJobStatusChange_request Sprintf_f1 main_ie2
             (remote_juggler_Job\<lparr>Status := StatusWaitingJob\<rparr>)),
          Os_Remove gizmostatusfile])"
proof -
  have g: "getJob main_ie 7 unreachable
       = (Returned (Some (TransportError ''connection refused'')), main_ie)"
    "getJob main_ie2 7 unreachable
       = (Returned (Some (TransportError ''connection refused'')), main_ie2)"
    by (simp_all add: getJob_unreachable)
  have h: "Status remote_Job = ''Waiting for a button''" "Id remote_Job = 7"
    "daemon_job waiting1 = remote_Job" "daemon_ie waiting1 = main_ie"
    "Status remote_juggler_Job = StatusWaitingButton" "Id remote_juggler_Job = 7"
    "daemon_job waiting2 = remote_juggler_Job" "daemon_ie waiting2 = main_ie2"
    "Scheduled remote_juggler_Job = waitingForButtonInterval"
    "os_Stat (offline :: juggler_Job world) = StatOk 0"
    "os_Stat (offline :: Job world) = StatOk 0"
    "client_Do (offline :: juggler_Job world) = unreachable"
    "client_Do (offline :: Job world) = unreachable"
    "waitingForButtonInterval \<le> 600000000000"
    by (simp_all add: offline_def waiting1_def waiting2_def remote_Job_def remote_juggler_Job_def
        StatusWaitingButton_def waitingForButtonInterval_def)
  note inst = button_timeout
    [where ?fmt_f1.0 = Sprintf_f1
       and ?w1.0 = "offline\<lparr>now_ModTime_check := 600000000000\<rparr>" and ?s1.0 = waiting1
       and ?err1.0 = "Some (TransportError ''connection refused'')" and ?i1.0 = main_ie
       and ?m1.0 = 0
       and ?w2.0 = "offline\<lparr>now_ModTime_check := 600000000000,
             now_Scheduled_check := 600000000000\<rparr>"
       and ?s2.0 = waiting2 and ?T0.0 = 0
       and ?err2.0 = "Some (TransportError ''connection refused'')" and ?i2.0 = main_ie2
       and ?m2.0 = 0]
  from inst [THEN conjunct1] inst [THEN conjunct2, THEN conjunct1] show ?thesis
    by (simp add: g h)
qed

text \<open>
  C2 as stated fails in revision 2 at the first tick at the deadline, with the signal
  file present and the button not pressed. In the first tick the remote service reports
  "Cancelling": the job goes to "Cancelling", keeps its \<open>Id\<close>, and neither a timeout
  report nor the removal of the file happens. In the second tick the signal file was
  written one millisecond after the fetch, so its clock is still running: the button is
  checked and the job keeps waiting.
\<close>

theorem no_timeout_at_the_deadline:
  "tick2 Sprintf_f1
     (offline\<lparr>client_Do :=
          answers (Decoded True (Some (remote_juggler_Job\<lparr>Status := StatusCancelling\<rparr>)) []),
        now_ModTime_check := 600000000000, now_Scheduled_check := 600000000000\<rparr>) waiting2
    = Some (\<lparr>daemon_job = remote_juggler_Job\<lparr>Status := StatusCancelling\<rparr>,
             daemon_ie = main_ie2\<lparr>job := Some (remote_juggler_Job\<lparr>Status := StatusCancelling\<rparr>)\<rparr>\<rparr>,
        [ClientDo (reportStat_request main_ie2), ClientDo (getJob_request main_ie2 7),
         ClientDo (reportJobStatusChange_request Sprintf_f1
            (main_ie2\<lparr>job := Some (remote_juggler_Job\<lparr>Status := StatusCancelling\<rparr>)\<rparr>)
            (remote_juggler_Job\<lparr>Status := StatusCancelling\<rparr>))])
   \<and> tick2 Sprintf_f1
     (offline\<lparr>os_Stat := StatOk 1000000,
        now_ModTime_check := 600000000000, now_Scheduled_check := 600000000000\<rparr>) waiting2
    = Some (waiting2,
        [ClientDo (reportStat_request main_ie2), ClientDo (getJob_request main_ie2 7),
         CheckButtonPressed])"
  by (simp add: tick2_def waiting_button2_def UpdateStatus_def Let_def getJob_unreachable
      getJob_answers offline_def waiting2_def remote_juggler_Job_def waitingForButtonInterval_def
      StatusWaitingJob_def StatusWaitingButton_def StatusCancelling_def)

subsection \<open>Cancellation from the remote service while waiting for the button\<close>

lemma waiting_for_a_button1_remote_cancel:
  assumes "getJob (daemon_ie s) (Id (daemon_job s)) (client_Do w) = (Returned None, i)"
    and "job i = Some r"
    and "Status r = ''Cancelling''"
  shows "waiting_for_a_button1 fmt_f1 w s =
     Some (\<lparr>daemon_job = (daemon_job s)\<lparr>Status := ''Cancelling''\<rparr>, daemon_ie = i\<rparr>,
       [ClientDo (getJob_request (daemon_ie s) (Id (daemon_job s)))])"
  using assms by (simp add: waiting_for_a_button1_def Let_def)

lemma waiting_button2_remote_cancel:
  assumes "getJob (daemon_ie s) (Id (daemon_job s)) (client_Do w) = (Returned None, i)"
    and "job i = Some r"
    and "Status r = StatusCancelling"
  shows "waiting_button2 fmt_f1 w s =
     Some (\<lparr>daemon_job = (daemon_job s)\<lparr>Status := StatusCancelling\<rparr>, daemon_ie = i\<rparr>,
       [ClientDo (getJob_request (daemon_ie s) (Id (daemon_job s))),
        ClientDo (reportJobStatusChange_request fmt_f1 i
           ((daemon_job s)\<lparr>Status := StatusCancelling\<rparr>))])"
  using assms by (simp add: waiting_button2_def UpdateStatus_def Let_def)

text \<open>
  C3. The claim: in state "Waiting for a button", when the remote fetch succeeds and the
  remote job is "Cancelling", the handler sets the status to "Cancelling" and reports
  that change. Revision 2 does (\<open>waiting_button2_remote_cancel\<close>); revision 1 sets the
  status and leaves the \<open>switch\<close> without a report. Here each revision runs a tick in
  which the remote service answers with the job in status "Cancelling": the only
  requests of revision 1 are the heartbeat and the fetch, revision 2 sends the report
  after them.
\<close>

theorem remote_cancel_not_reported1:
  "tick1 Sprintf_f1
     (offline\<lparr>client_Do := answers (Decoded True (Some (remote_Job\<lparr>Status := ''Cancelling''\<rparr>)) [])\<rparr>)
     waiting1
    = Some (\<lparr>daemon_job = remote_Job\<lparr>Status := ''Cancelling''\<rparr>,
             daemon_ie = main_ie\<lparr>job := Some (remote_Job\<lparr>Status := ''Cancelling''\<rparr>)\<rparr>\<rparr>,
        [ClientDo (reportStat_request main_ie), ClientDo (getJob_request main_ie 7)])
   \<and> tick2 Sprintf_f1
     (offline\<lparr>client_Do :=
          answers (Decoded True (Some (remote_juggler_Job\<lparr>Status := StatusCancelling\<rparr>)) [])\<rparr>)
     waiting2
    = Some (\<lparr>daemon_job = remote_juggler_Job\<lparr>Status := StatusCancelling\<rparr>,
             daemon_ie = main_ie2\<lparr>job := Some (remote_juggler_Job\<lparr>Status := StatusCancelling\<rparr>)\<rparr>\<rparr>,
        [ClientDo (reportStat_request main_ie2), ClientDo (getJob_request main_ie2 7),
         ClientDo (reportJobStatusChange_request Sprintf_f1
            (main_ie2\<lparr>job := Some (remote_juggler_Job\<lparr>Status := StatusCancelling\<rparr>)\<rparr>)
            (remote_juggler_Job\<lparr>Status := StatusCancelling\<rparr>))])"
  by (simp add: tick1_def tick2_def waiting_for_a_button1_def waiting_button2_def
      UpdateStatus_def Let_def getJob_answers offline_def waiting1_def waiting2_def
      remote_Job_def remote_juggler_Job_def StatusWaitingJob_def StatusWaitingButton_def
      StatusCancelling_def)

subsection \<open>Cancellation through the device\<close>

lemma printing1_signal_file_absent:
  assumes "os_Stat w = NotExist" and "Status (daemon_job s) = ''Printing''"
  shows "tick1 fmt_f1 w s =
     Some (s\<lparr>daemon_job := (daemon_job s)\<lparr>Status := ''Cancelling''\<rparr>\<rparr>,
       [ClientDo (reportStat_request (daemon_ie s)), Feeder_Cancel,
        ClientDo (reportJobStatusChange_request fmt_f1 (daemon_ie s)
           ((daemon_job s)\<lparr>Status := ''Cancelling''\<rparr>))])"
  using assms by (simp add: tick1_def printing1_def Let_def)

lemma printing2_signal_file_absent:
  assumes "os_Stat w = NotExist" and "Status (daemon_job s) = StatusPrinting"
  shows "tick2 fmt_f1 w s =
     Some (s\<lparr>daemon_job := (daemon_job s)\<lparr>Status := StatusCancelling\<rparr>\<rparr>,
       [ClientDo (reportStat_request (daemon_ie s)), Feeder_Cancel,
        ClientDo (reportJobStatusChange_request fmt_f1 (daemon_ie s)
           ((daemon_job s)\<lparr>Status := StatusCancelling\<rparr>))])"
  using assms
  by (simp add: tick2_def printing2_def UpdateStatus_def Let_def StatusPrinting_def
      StatusWaitingJob_def StatusWaitingButton_def StatusSending_def)

lemma waiting1_signal_file_absent:
  assumes "os_Stat w = NotExist" and "Status (daemon_job s) = ''Waiting for a button''"
    and "getJob (daemon_ie s) (Id (daemon_job s)) (client_Do w) = (Returned err, i)"
  shows "\<exists>es. tick1 fmt_f1 w s =
     Some (\<lparr>daemon_job = (daemon_job s)\<lparr>Status := ''Cancelling''\<rparr>, daemon_ie = i\<rparr>, es)"
proof (cases err)
  case None
  with assms(3) obtain r where "job i = Some r"
    using getJob_nil_has_job by blast
  with None assms show ?thesis
    by (simp add: tick1_def waiting_for_a_button1_def Let_def)
next
  case (Some e)
  with assms show ?thesis
    by (simp add: tick1_def waiting_for_a_button1_def Let_def)
qed

lemma waiting2_signal_file_absent:
  assumes "os_Stat w = NotExist" and "Status (daemon_job s) = StatusWaitingButton"
    and "getJob (daemon_ie s) (Id (daemon_job s)) (client_Do w) = (Returned err, i)"
  shows "\<exists>es. tick2 fmt_f1 w s =
     Some (\<lparr>daemon_job = (daemon_job s)\<lparr>Status := StatusCancelling\<rparr>, daemon_ie = i\<rparr>, es)"
proof (cases err)
  case None
  with assms(3) obtain r where "job i = Some r"
    using getJob_nil_has_job by blast
  with None assms show ?thesis
    by (simp add: tick2_def waiting_button2_def UpdateStatus_def Let_def
        StatusWaitingButton_def StatusWaitingJob_def)
next
  case (Some e)
  with assms show ?thesis
    by (simp add: tick2_def waiting_button2_def UpdateStatus_def Let_def
        StatusWaitingButton_def StatusWaitingJob_def)
qed

lemma waiting_tick_panics:
  "Status (daemon_job s1) = ''Waiting for a button'' \<Longrightarrow>
     fst (getJob (daemon_ie s1) (Id (daemon_job s1)) (client_Do w1)) = Panicked \<Longrightarrow>
     tick1 fmt_f1 w1 s1 = None"
  "Status (daemon_job s2) = StatusWaitingButton \<Longrightarrow>
     fst (getJob (daemon_ie s2) (Id (daemon_job s2)) (client_Do w2)) = Panicked \<Longrightarrow>
     tick2 fmt_f1 w2 s2 = None"
  by (auto simp: tick1_def tick2_def waiting_for_a_button1_def waiting_button2_def Let_def
      StatusWaitingButton_def StatusWaitingJob_def split: prod.splits)

text \<open>
  C4. The claim: a tick in state "Waiting for a button" or "Printing" that finds the
  signal file absent ends with status "Cancelling", whatever the remote service answers,
  and in state "Printing" cancels the feeder. That holds in state "Printing"
  (\<open>printing1_signal_file_absent\<close>, \<open>printing2_signal_file_absent\<close>), and in state
  "Waiting for a button" whenever \<open>getJob\<close> returns (\<open>waiting1_signal_file_absent\<close>,
  \<open>waiting2_signal_file_absent\<close>). But \<open>getJob\<close> runs before the file is looked at, and
  it dereferences \<open>ie.job\<close> without a check: when the remote service answers
  \<open>Success = true\<close> with no content, the tick panics and does not end at all.
\<close>

theorem signal_file_absent_tick_panics:
  "tick1 Sprintf_f1 (offline\<lparr>client_Do := answers (Decoded True None []), os_Stat := NotExist\<rparr>)
     waiting1 = None
   \<and> tick2 Sprintf_f1 (offline\<lparr>client_Do := answers (Decoded True None []), os_Stat := NotExist\<rparr>)
     waiting2 = None"
  by (simp add: tick1_def tick2_def waiting_for_a_button1_def waiting_button2_def Let_def
      getJob_answers_no_content offline_def waiting1_def waiting2_def remote_Job_def
      remote_juggler_Job_def StatusWaitingButton_def StatusWaitingJob_def)

subsection \<open>Progress while printing\<close>

lemma printing1_progress:
  assumes "Status (daemon_job s) = ''Printing''"
    and "os_Stat w \<noteq> NotExist"
    and "getJob (daemon_ie s) (Id (daemon_job s)) (client_Do w) = (Returned err, i)"
    and "\<not> (err = None \<and> map_option Status (job i) = Some ''Cancelling'')"
  shows "printing1 fmt_f1 w s =
     Some (\<lparr>daemon_job = (daemon_job s)
               \<lparr>Progress := feeder_Progress w, feederStatus := feeder_Status w,
                Status := (case feeder_Status w of
                             Finished \<Rightarrow> ''Finished'' | Error \<Rightarrow> ''Cancelling'' | _ \<Rightarrow> ''Printing'')\<rparr>,
             daemon_ie = i\<rparr>,
       [ClientDo (getJob_request (daemon_ie s) (Id (daemon_job s))),
        ClientDo (reportJobStatusChange_request fmt_f1 i
           ((daemon_job s)
               \<lparr>Progress := feeder_Progress w, feederStatus := feeder_Status w,
                Status := (case feeder_Status w of
                             Finished \<Rightarrow> ''Finished'' | Error \<Rightarrow> ''Cancelling'' | _ \<Rightarrow> ''Printing'')\<rparr>))])"
proof -
  have same: "(daemon_job s)\<lparr>Progress := p, feederStatus := f, Status := ''Printing''\<rparr>
      = (daemon_job s)\<lparr>Progress := p, feederStatus := f\<rparr>" for p f
    using assms(1) by (simp add: Status_update_same)
  show ?thesis
  proof (cases err)
    case None
    with assms(3) obtain r where "job i = Some r"
      using getJob_nil_has_job by blast
    with None assms show ?thesis
      by (cases "feeder_Status w") (simp_all add: printing1_def Let_def same)
  next
    case (Some e)
    with assms show ?thesis
      by (cases "feeder_Status w") (simp_all add: printing1_def Let_def same)
  qed
qed

lemma printing2_progress:
  assumes "Status (daemon_job s) = StatusPrinting"
    and "os_Stat w \<noteq> NotExist"
    and "getJob (daemon_ie s) (Id (daemon_job s)) (client_Do w) = (Returned err, i)"
    and "\<not> (err = None \<and> map_option Status (job i) = Some StatusCancelling)"
  shows "printing2 fmt_f1 w s =
     Some (\<lparr>daemon_job = (daemon_job s)
               \<lparr>Progress := feeder_Progress w, feederStatus := feeder_Status w,
                Status := (case feeder_Status w of
                             Finished \<Rightarrow> StatusFinished | Error \<Rightarrow> StatusCancelling
                           | _ \<Rightarrow> StatusPrinting)\<rparr>,
             daemon_ie = i\<rparr>,
       [ClientDo (getJob_request (daemon_ie s) (Id (daemon_job s))),
        ClientDo (reportJobStatusChange_request fmt_f1 i
           ((daemon_job s)
               \<lparr>Progress := feeder_Progress w, feederStatus := feeder_Status w,
                Status := (case feeder_Status w of
                             Finished \<Rightarrow> StatusFinished | Error \<Rightarrow> StatusCancelling
                           | _ \<Rightarrow> StatusPrinting)\<rparr>))])"
proof -
  have same: "(daemon_job s)\<lparr>Progress := p, feederStatus := f, Status := StatusPrinting\<rparr>
      = (daemon_job s)\<lparr>Progress := p, feederStatus := f\<rparr>" for p f
    using assms(1) by (simp add: Status_update_same)
  show ?thesis
  proof (cases err)
    case None
    with assms(3) obtain r where "job i = Some r"
      using getJob_nil_has_job by blast
    with None assms show ?thesis
      by (cases "feeder_Status w") (simp_all add: printing2_def UpdateStatus_def Let_def same)
  next
    case (Some e)
    with assms show ?thesis
      by (cases "feeder_Status w") (simp_all add: printing2_def UpdateStatus_def Let_def same)
  qed
qed

text \<open>
  C6. In state "Printing", when the signal file is not absent and the remote fetch
  returns without reporting "Cancelling", the tick copies \<open>feeder.Progress()\<close> into
  \<open>Progress\<close> and \<open>feeder.Status()\<close> into the feeder status of the job, sets \<open>Status\<close> to
  "Finished" when the feeder has finished, to "Cancelling" when the feeder reports an
  error, and leaves it "Printing" for every other feeder status; its last effect is the
  report of the job so updated. The status that report carries is the one
  \<open>reportJobStatusChange\<close> derives from the job, which for a printing feeder is the
  progress string.
\<close>

theorem printing_progress_branch:
  "(Status (daemon_job s1) = ''Printing''
      \<and> os_Stat w1 \<noteq> NotExist
      \<and> getJob (daemon_ie s1) (Id (daemon_job s1)) (client_Do w1) = (Returned err1, i1)
      \<and> \<not> (err1 = None \<and> map_option Status (job i1) = Some ''Cancelling'') \<longrightarrow>
    tick1 fmt_f1 w1 s1 =
      Some (\<lparr>daemon_job = (daemon_job s1)
                \<lparr>Progress := feeder_Progress w1, feederStatus := feeder_Status w1,
                 Status := (case feeder_Status w1 of
                              Finished \<Rightarrow> ''Finished'' | Error \<Rightarrow> ''Cancelling''
                            | _ \<Rightarrow> ''Printing'')\<rparr>,
              daemon_ie = i1\<rparr>,
        [ClientDo (reportStat_request (daemon_ie s1)),
         ClientDo (getJob_request (daemon_ie s1) (Id (daemon_job s1))),
         ClientDo (reportJobStatusChange_request fmt_f1 i1
            ((daemon_job s1)
                \<lparr>Progress := feeder_Progress w1, feederStatus := feeder_Status w1,
                 Status := (case feeder_Status w1 of
                              Finished \<Rightarrow> ''Finished'' | Error \<Rightarrow> ''Cancelling''
                            | _ \<Rightarrow> ''Printing'')\<rparr>))]))
   \<and> (Status (daemon_job s2) = StatusPrinting
      \<and> os_Stat w2 \<noteq> NotExist
      \<and> getJob (daemon_ie s2) (Id (daemon_job s2)) (client_Do w2) = (Returned err2, i2)
      \<and> \<not> (err2 = None \<and> map_option Status (job i2) = Some StatusCancelling) \<longrightarrow>
    tick2 fmt_f1 w2 s2 =
      Some (\<lparr>daemon_job = (daemon_job s2)
                \<lparr>Progress := feeder_Progress w2, feederStatus := feeder_Status w2,
                 Status := (case feeder_Status w2 of
                              Finished \<Rightarrow> StatusFinished | Error \<Rightarrow> StatusCancelling
                            | _ \<Rightarrow> StatusPrinting)\<rparr>,
              daemon_ie = i2\<rparr>,
        [ClientDo (reportStat_request (daemon_ie s2)),
         ClientDo (getJob_request (daemon_ie s2) (Id (daemon_job s2))),
         ClientDo (reportJobStatusChange_request fmt_f1 i2
            ((daemon_job s2)
                \<lparr>Progress := feeder_Progress w2, feederStatus := feeder_Status w2,
                 Status := (case feeder_Status w2 of
                              Finished \<Rightarrow> StatusFinished | Error \<Rightarrow> StatusCancelling
                            | _ \<Rightarrow> StatusPrinting)\<rparr>))]))
   \<and> form_value ''status'' (reportJobStatusChange_request fmt_f1 ie d)
        = Some (statusWithProgress fmt_f1 d)
   \<and> statusWithProgress fmt_f1 (d\<lparr>Progress := p, feederStatus := Printing, Status := ''Printing''\<rparr>)
        = ''Printing... ('' @ fmt_f1 p @ ''%)''"
proof (intro conjI impI)
  assume a: "Status (daemon_job s1) = ''Printing''
      \<and> os_Stat w1 \<noteq> NotExist
      \<and> getJob (daemon_ie s1) (Id (daemon_job s1)) (client_Do w1) = (Returned err1, i1)
      \<and> \<not> (err1 = None \<and> map_option Status (job i1) = Some ''Cancelling'')"
  then show "tick1 fmt_f1 w1 s1 =
      Some (\<lparr>daemon_job = (daemon_job s1)
                \<lparr>Progress := feeder_Progress w1, feederStatus := feeder_Status w1,
                 Status := (case feeder_Status w1 of
                              Finished \<Rightarrow> ''Finished'' | Error \<Rightarrow> ''Cancelling''
                            | _ \<Rightarrow> ''Printing'')\<rparr>,
              daemon_ie = i1\<rparr>,
        [ClientDo (reportStat_request (daemon_ie s1)),
         ClientDo (getJob_request (daemon_ie s1) (Id (daemon_job s1))),
         ClientDo (reportJobStatusChange_request fmt_f1 i1
            ((daemon_job s1)
                \<lparr>Progress := feeder_Progress w1, feederStatus := feeder_Status w1,
                 Status := (case feeder_Status w1 of
                              Finished \<Rightarrow> ''Finished'' | Error \<Rightarrow> ''Cancelling''
                            | _ \<Rightarrow> ''Printing'')\<rparr>))])"
    using printing1_progress [of s1 w1 err1 i1 fmt_f1] by (simp add: tick1_def Let_def)
next
  assume a: "Status (daemon_job s2) = StatusPrinting
      \<and> os_Stat w2 \<noteq> NotExist
      \<and> getJob (daemon_ie s2) (Id (daemon_job s2)) (client_Do w2) = (Returned err2, i2)
      \<and> \<not> (err2 = None \<and> map_option Status (job i2) = Some StatusCancelling)"
  then have "printing2 fmt_f1 w2 s2 =
      Some (\<lparr>daemon_job = (daemon_job s2)
                \<lparr>Progress := feeder_Progress w2, feederStatus := feeder_Status w2,
                 Status := (case feeder_Status w2 of
                              Finished \<Rightarrow> StatusFinished | Error \<Rightarrow> StatusCancelling
                            | _ \<Rightarrow> StatusPrinting)\<rparr>,
              daemon_ie = i2\<rparr>,
        [ClientDo (getJob_request (daemon_ie s2) (Id (daemon_job s2))),
         ClientDo (reportJobStatusChange_request fmt_f1 i2
            ((daemon_job s2)
                \<lparr>Progress := feeder_Progress w2, feederStatus := feeder_Status w2,
                 Status := (case feeder_Status w2 of
                              Finished \<Rightarrow> StatusFinished | Error \<Rightarrow> StatusCancelling
                            | _ \<Rightarrow> StatusPrinting)\<rparr>))])"
    using printing2_progress [of s2 w2 err2 i2 fmt_f1] by simp
  with a show "tick2 fmt_f1 w2 s2 =
      Some (\<lparr>daemon_job = (daemon_job s2)
                \<lparr>Progress := feeder_Progress w2, feederStatus := feeder_Status w2,
                 Status := (case feeder_Status w2 of
                              Finished \<Rightarrow> StatusFinished | Error \<Rightarrow> StatusCancelling
                            | _ \<Rightarrow> StatusPrinting)\<rparr>,
              daemon_ie = i2\<rparr>,
        [ClientDo (reportStat_request (daemon_ie s2)),
         ClientDo (getJob_request (daemon_ie s2) (Id (daemon_job s2))),
         ClientDo (reportJobStatusChange_request fmt_f1 i2
            ((daemon_job s2)
                \<lparr>Progress := feeder_Progress w2, feederStatus := feeder_Status w2,
                 Status := (case feeder_Status w2 of
                              Finished \<Rightarrow> StatusFinished | Error \<Rightarrow> StatusCancelling
                            | _ \<Rightarrow> StatusPrinting)\<rparr>))])"
    by (simp add: tick2_def Let_def StatusPrinting_def StatusWaitingJob_def
        StatusWaitingButton_def StatusSending_def)
next
  show "form_value ''status'' (reportJobStatusChange_request fmt_f1 ie d)
        = Some (statusWithProgress fmt_f1 d)"
    by (simp add: reportJobStatusChange_request_def)
next
  show "statusWithProgress fmt_f1
          (d\<lparr>Progress := p, feederStatus := Printing, Status := ''Printing''\<rparr>)
        = ''Printing... ('' @ fmt_f1 p @ ''%)''"
    by (simp add: statusWithProgress_def)
qed

text \<open>
  An instance: the remote service is unreachable and the signal file is present. In
  revision 1 the feeder prints at 42.5 percent and the job stays "Printing"; in revision
  2 the feeder has finished and the job becomes "Finished".
\<close>

theorem printing_progress_branch_witness:
  "tick1 Sprintf_f1 (offline\<lparr>feeder_Progress := 42.5, feeder_Status := Printing\<rparr>)
       printing_daemon1
     = Some (\<lparr>daemon_job = remote_Job\<lparr>Progress := 42.5, feederStatus := Printing,
                  Status := ''Printing''\<rparr>,
              daemon_ie = main_ie\<rparr>,
         [ClientDo (reportStat_request main_ie), ClientDo (getJob_request main_ie 7),
          ClientDo (reportJobStatusChange_request Sprintf_f1 main_ie
             (remote_Job\<lparr>Progress := 42.5, feederStatus := Printing,
                Status := ''Printing''\<rparr>))])
   \<and> tick2 Sprintf_f1 (offline\<lparr>feeder_Progress := 100, feeder_Status := Finished\<rparr>)
       printing_daemon2
     = Some (\<lparr>daemon_job = remote_juggler_Job\<lparr>Progress := 100, feederStatus := Finished,
                  Status := StatusFinished\<rparr>,
              daemon_ie = main_ie2\<rparr>,
         [ClientDo (reportStat_request main_ie2), ClientDo (getJob_request main_ie2 7),
          ClientDo (reportJobStatusChange_request Sprintf_f1 main_ie2
             (remote_juggler_Job\<lparr>Progress := 100, feederStatus := Finished,
                Status := StatusFinished\<rparr>))])
   \<and> form_value ''status'' (reportJobStatusChange_request Sprintf_f1 main_ie remote_Job)
        = Some (statusWithProgress Sprintf_f1 remote_Job)
   \<and> statusWithProgress Sprintf_f1
          (remote_Job\<lparr>Progress := 42.5, feederStatus := Printing, Status := ''Printing''\<rparr>)
        = ''Printing... (42.5%)''"
proof -
  have g: "getJob main_ie 7 unreachable
       = (Returned (Some (TransportError ''connection refused'')), main_ie)"
    "getJob main_ie2 7 unreachable
       = (Returned (Some (TransportError ''connection refused'')), main_ie2)"
    by (simp_all add: getJob_unreachable)
  have h: "Status (remote_Job\<lparr>Status := ''Printing''\<rparr>) = ''Printing''"
    "Id (remote_Job\<lparr>Status := ''Printing''\<rparr>) = 7"
    "daemon_job printing_daemon1 = remote_Job\<lparr>Status := ''Printing''\<rparr>"
    "daemon_ie printing_daemon1 = main_ie"
    "Status (remote_juggler_Job\<lparr>Status := ''Printing''\<rparr>) = StatusPrinting"
    "Id (remote_juggler_Job\<lparr>Status := ''Printing''\<rparr>) = 7"
    "daemon_job printing_daemon2 = remote_juggler_Job\<lparr>Status := ''Printing''\<rparr>"
    "daemon_ie printing_daemon2 = main_ie2"
    "os_Stat (offline :: juggler_Job world) = StatOk 0"
    "os_Stat (offline :: Job world) = StatOk 0"
    "client_Do (offline :: juggler_Job world) = unreachable"
    "client_Do (offline :: Job world) = unreachable"
    by (simp_all add: offline_def printing_daemon1_def printing_daemon2_def remote_Job_def
        remote_juggler_Job_def StatusPrinting_def)
  have f: "Sprintf_f1 (85 / 2) = ''42.5''"
    by (simp add: Sprintf_f1_def Let_def digits.simps)
  note inst = printing_progress_branch
    [where ?fmt_f1.0 = Sprintf_f1
       and ?w1.0 = "offline\<lparr>feeder_Progress := 42.5, feeder_Status := Printing\<rparr>"
       and ?s1.0 = printing_daemon1
       and ?err1.0 = "Some (TransportError ''connection refused'')" and ?i1.0 = main_ie
       and ?w2.0 = "offline\<lparr>feeder_Progress := 100, feeder_Status := Finished\<rparr>"
       and ?s2.0 = printing_daemon2
       and ?err2.0 = "Some (TransportError ''connection refused'')" and ?i2.0 = main_ie2
       and ie = main_ie and d = remote_Job and p = "85 / 2"]
  from inst show ?thesis
    by (simp add: g h f)
qed

subsection \<open>Cleanup\<close>

text \<open>
  C7. A tick in state "Cancelling" and a tick in state "Finished" do the same: after the
  heartbeat they call \<open>deleteJob\<close> for the job, and whatever the remote service answers
  (the right-hand sides do not depend on the answer) they end with \<open>Id = 0\<close> and \<open>Status\<close>
  "Waiting for job" and remove the signal file. Revision 2 reports the new status, with
  \<open>Id\<close> already \<open>0\<close>, before it removes the file. So both \<open>Id = 0\<close> and \<open>Status\<close> "Waiting
  for job" hold after the cleanup.
\<close>

theorem cleanup_after_Cancelling_or_Finished:
  "(Status (daemon_job s1) = ''Cancelling'' \<or> Status (daemon_job s1) = ''Finished'' \<longrightarrow>
      tick1 fmt_f1 w1 s1 =
        Some (s1\<lparr>daemon_job := (daemon_job s1)\<lparr>Id := 0, Status := ''Waiting for job''\<rparr>\<rparr>,
          [ClientDo (reportStat_request (daemon_ie s1)),
           ClientDo (deleteJob_request (daemon_ie s1) (daemon_job s1)),
           Os_Remove gizmostatusfile]))
   \<and> (Status (daemon_job s2) = StatusCancelling \<or> Status (daemon_job s2) = StatusFinished \<longrightarrow>
      tick2 fmt_f1 w2 s2 =
        Some (s2\<lparr>daemon_job := (daemon_job s2)\<lparr>Id := 0, Status := StatusWaitingJob\<rparr>\<rparr>,
          [ClientDo (reportStat_request (daemon_ie s2)),
           ClientDo (deleteJob_request (daemon_ie s2) (daemon_job s2)),
           ClientDo (reportJobStatusChange_request fmt_f1 (daemon_ie s2)
              ((daemon_job s2)\<lparr>Id := 0, Status := StatusWaitingJob\<rparr>)),
           Os_Remove gizmostatusfile]))
   \<and> (Id (d\<lparr>Id := 0, Status := ''Waiting for job''\<rparr>) = 0)
        = (Status (d\<lparr>Id := 0, Status := ''Waiting for job''\<rparr>) = ''Waiting for job'')"
  by (auto simp: tick1_def tick2_def cancelling_finished1_def cancelling_finished2_def
      UpdateStatus_def Let_def StatusWaitingJob_def StatusWaitingButton_def StatusSending_def
      StatusPrinting_def StatusCancelling_def StatusFinished_def)

text \<open>
  Instances: revision 1 cleans up a cancelled job while the remote service is
  unreachable, so that \<open>deleteJob\<close> returns an error, and a finished job while the remote
  service answers, so that \<open>deleteJob\<close> returns \<open>nil\<close>; revision 2 cleans up a cancelled
  job.
\<close>

theorem cleanup_after_Cancelling_or_Finished_witness:
  "deleteJob main_ie (remote_Job\<lparr>Status := ''Cancelling''\<rparr>) unreachable
     = Some (TransportError ''connection refused'')
   \<and> tick1 Sprintf_f1 offline
       \<lparr>daemon_job = remote_Job\<lparr>Status := ''Cancelling''\<rparr>, daemon_ie = main_ie\<rparr>
     = Some (\<lparr>daemon_job = remote_Job\<lparr>Id := 0, Status := ''Waiting for job''\<rparr>,
              daemon_ie = main_ie\<rparr>,
         [ClientDo (reportStat_request main_ie),
          ClientDo (deleteJob_request main_ie (remote_Job\<lparr>Status := ''Cancelling''\<rparr>)),
          Os_Remove gizmostatusfile])
   \<and> deleteJob main_ie (remote_Job\<lparr>Status := ''Finished''\<rparr>)
       (answers (Decoded False None ''no such job'')) = None
   \<and> tick1 Sprintf_f1 (offline\<lparr>client_Do := answers (Decoded False None ''no such job'')\<rparr>)
       \<lparr>daemon_job = remote_Job\<lparr>Status := ''Finished''\<rparr>, daemon_ie = main_ie\<rparr>
     = Some (\<lparr>daemon_job = remote_Job\<lparr>Id := 0, Status := ''Waiting for job''\<rparr>,
              daemon_ie = main_ie\<rparr>,
         [ClientDo (reportStat_request main_ie),
          ClientDo (deleteJob_request main_ie (remote_Job\<lparr>Status := ''Finished''\<rparr>)),
          Os_Remove gizmostatusfile])
   \<and> tick2 Sprintf_f1 offline
       \<lparr>daemon_job = remote_juggler_Job\<lparr>Status := StatusCancelling\<rparr>, daemon_ie = main_ie2\<rparr>
     = Some (\<lparr>daemon_job = remote_juggler_Job\<lparr>Id := 0, Status := StatusWaitingJob\<rparr>,
              daemon_ie = main_ie2\<rparr>,
         [ClientDo (reportStat_request main_ie2),
          ClientDo (deleteJob_request main_ie2 (remote_juggler_Job\<lparr>Status := StatusCancelling\<rparr>)),
          ClientDo (reportJobStatusChange_request Sprintf_f1 main_ie2
             (remote_juggler_Job\<lparr>Id := 0, Status := StatusWaitingJob\<rparr>)),
          Os_Remove gizmostatusfile])"
proof -
  have d: "deleteJob main_ie (remote_Job\<lparr>Status := ''Cancelling''\<rparr>) unreachable
       = Some (TransportError ''connection refused'')"
    "deleteJob main_ie (remote_Job\<lparr>Status := ''Finished''\<rparr>)
       (answers (Decoded False None ''no such job'')) = None"
    by (simp_all add: deleteJob_def unreachable_def answers_def)
  note cancelled1 = cleanup_after_Cancelling_or_Finished
    [where ?fmt_f1.0 = Sprintf_f1 and ?w1.0 = offline
       and ?s1.0 = "\<lparr>daemon_job = remote_Job\<lparr>Status := ''Cancelling''\<rparr>, daemon_ie = main_ie\<rparr>",
     THEN conjunct1]
  note finished1 = cleanup_after_Cancelling_or_Finished
    [where ?fmt_f1.0 = Sprintf_f1
       and ?w1.0 = "offline\<lparr>client_Do := answers (Decoded False None ''no such job'')\<rparr>"
       and ?s1.0 = "\<lparr>daemon_job = remote_Job\<lparr>Status := ''Finished''\<rparr>, daemon_ie = main_ie\<rparr>",
     THEN conjunct1]
  note cancelled2 = cleanup_after_Cancelling_or_Finished
    [where ?fmt_f1.0 = Sprintf_f1 and ?w2.0 = offline
       and ?s2.0 = "\<lparr>daemon_job = remote_juggler_Job\<lparr>Status := StatusCancelling\<rparr>,
            daemon_ie = main_ie2\<rparr>",
     THEN conjunct2, THEN conjunct1]
  from cancelled1 finished1 cancelled2 show ?thesis
    by (simp add: d)
qed

subsection \<open>The reported status string\<close>

text \<open>
  C8. For a job with \<open>Status\<close> "Printing" the status string that \<open>reportJobStatusChange\<close>
  sends depends on the feeder status and the progress only: with the feeder printing it
  is "Printing... (P%)", where P is the progress as \<open>%0.1f\<close> formats it (so
  "Printing... (42.5%)" when that format of 42.5 is "42.5"); with the feeder in
  \<open>MMUBusy\<close> or \<open>FSensorBusy\<close> it is the fixed text for that pause. For a job with any
  other \<open>Status\<close> the status is sent as it is. The string is the value of the form key
  \<open>status\<close> of the request.
\<close>

theorem reported_status_string:
  "(Status j = ''Printing'' \<and> feederStatus j = Printing \<longrightarrow>
      statusWithProgress fmt_f1 j = ''Printing... ('' @ fmt_f1 (Progress j) @ ''%)'')
   \<and> (Status j = ''Printing'' \<and> feederStatus j = MMUBusy \<longrightarrow>
      statusWithProgress fmt_f1 j = ''Printing paused: MMU paused printing'')
   \<and> (Status j = ''Printing'' \<and> feederStatus j = FSensorBusy \<longrightarrow>
      statusWithProgress fmt_f1 j = ''Printing paused: Filament sensor paused printing'')
   \<and> (Status j \<noteq> ''Printing'' \<longrightarrow> statusWithProgress fmt_f1 j = Status j)
   \<and> (Status j = ''Printing'' \<and> Status j' = ''Printing'' \<and> feederStatus j = feederStatus j'
        \<and> Progress j = Progress j' \<longrightarrow>
      statusWithProgress fmt_f1 j = statusWithProgress fmt_f1 j')
   \<and> (Status j = ''Printing'' \<and> feederStatus j = Printing \<and> Progress j = 42.5
        \<and> fmt_f1 42.5 = ''42.5'' \<longrightarrow>
      statusWithProgress fmt_f1 j = ''Printing... (42.5%)'')
   \<and> form_value ''status'' (reportJobStatusChange_request fmt_f1 ie j)
        = Some (statusWithProgress fmt_f1 j)"
proof -
  have example: "statusWithProgress fmt_f1 j = ''Printing... (42.5%)''"
    if "Status j = ''Printing'' \<and> feederStatus j = Printing \<and> Progress j = 42.5
        \<and> fmt_f1 42.5 = ''42.5''"
  proof -
    from that have "fmt_f1 (Progress j) = ''42.5''"
      by (simp only:)
    with that show ?thesis
      by (simp add: statusWithProgress_def)
  qed
  have determined: "statusWithProgress fmt_f1 j = statusWithProgress fmt_f1 j'"
    if "Status j = ''Printing'' \<and> Status j' = ''Printing'' \<and> feederStatus j = feederStatus j'
        \<and> Progress j = Progress j'"
    using that by (simp add: statusWithProgress_def split: FeederStatus.splits)
  have sent: "form_value ''status'' (reportJobStatusChange_request fmt_f1 ie j)
        = Some (statusWithProgress fmt_f1 j)"
    by (simp add: reportJobStatusChange_request_def)
  from example determined sent show ?thesis
    by (simp add: statusWithProgress_def)
qed

text \<open>
  Instances, with the formatter \<open>Sprintf_f1\<close>: a job printing at 42.5 percent, the same
  job with another owner, a job paused by the MMU, a job paused by the filament sensor,
  and a job that waits for the button.
\<close>

theorem reported_status_string_witness:
  "statusWithProgress Sprintf_f1
       (remote_Job\<lparr>Status := ''Printing'', Progress := 42.5, feederStatus := Printing\<rparr>)
     = ''Printing... (42.5%)''
   \<and> statusWithProgress Sprintf_f1
       (remote_Job\<lparr>Status := ''Printing'', Progress := 42.5, feederStatus := Printing\<rparr>)
     = statusWithProgress Sprintf_f1
       (remote_Job\<lparr>Status := ''Printing'', Progress := 42.5, feederStatus := Printing,
          Owner := ''bob''\<rparr>)
   \<and> statusWithProgress Sprintf_f1 (remote_Job\<lparr>Status := ''Printing'', feederStatus := MMUBusy\<rparr>)
     = ''Printing paused: MMU paused printing''
   \<and> statusWithProgress Sprintf_f1
       (remote_Job\<lparr>Status := ''Printing'', feederStatus := FSensorBusy\<rparr>)
     = ''Printing paused: Filament sensor paused printing''
   \<and> statusWithProgress Sprintf_f1 remote_Job = ''Waiting for a button''"
proof -
  have f: "Sprintf_f1 42.5 = ''42.5''"
    by (simp add: Sprintf_f1_def Let_def digits.simps)
  have w: "Status remote_Job = ''Waiting for a button''"
    by (simp add: remote_Job_def)
  note printing = reported_status_string
    [where ?fmt_f1.0 = Sprintf_f1
       and j = "remote_Job\<lparr>Status := ''Printing'', Progress := 42.5, feederStatus := Printing\<rparr>"
       and j' = "remote_Job\<lparr>Status := ''Printing'', Progress := 42.5, feederStatus := Printing,
          Owner := ''bob''\<rparr>"
       and ie = main_ie]
  note mmu = reported_status_string
    [where ?fmt_f1.0 = Sprintf_f1
       and j = "remote_Job\<lparr>Status := ''Printing'', feederStatus := MMUBusy\<rparr>",
     THEN conjunct2, THEN conjunct1]
  note fsensor = reported_status_string
    [where ?fmt_f1.0 = Sprintf_f1
       and j = "remote_Job\<lparr>Status := ''Printing'', feederStatus := FSensorBusy\<rparr>",
     THEN conjunct2, THEN conjunct2, THEN conjunct1]
  note waiting = reported_status_string
    [where ?fmt_f1.0 = Sprintf_f1 and j = remote_Job,
     THEN conjunct2, THEN conjunct2, THEN conjunct2, THEN conjunct1]
  from printing mmu fsensor waiting f w show ?thesis
    by auto
qed

end
